theory Spec2Isabelle
  imports Complex_Main "HOL-Library.AList"
begin

section \<open>JavaScript values and string primitives\<close>

text \<open>
  The generator builds its output as plain property bags (\<^verbatim>\<open>Record<string, unknown>\<close>)
  and hands them to \<^verbatim>\<open>YAML.dump\<close>. A bag is an association list in insertion
  order; \<^verbatim>\<open>obj[k] = v\<close> is \<open>AList.update k v\<close> (overwrite in place, or
  append a new key). Strings are lists of 8-bit characters, so the model covers the
  ASCII range of the UTF-16 strings of the source.
\<close>

datatype jsval =
    JUndefined
  | JNull
  | JBool bool
  | JNum real
  | JStr string
  | JRegExp string string
  | JArr "jsval list"
  | JObj "(string \<times> jsval) list"

datatype error = TypeError | FuelExhausted

definition getProp :: "string \<Rightarrow> jsval \<Rightarrow> jsval" where
  "getProp k v = (case v of JObj kvs \<Rightarrow> (case map_of kvs k of Some x \<Rightarrow> x | None \<Rightarrow> JUndefined)
                  | _ \<Rightarrow> JUndefined)"

definition hasProp :: "string \<Rightarrow> jsval \<Rightarrow> bool" where
  "hasProp k v = (case v of JObj kvs \<Rightarrow> k \<in> fst ` set kvs | _ \<Rightarrow> False)"

definition startsWith :: "string \<Rightarrow> string \<Rightarrow> bool" where
  "startsWith s p = (take (length p) s = p)"

definition endsWith :: "string \<Rightarrow> string \<Rightarrow> bool" where
  "endsWith s p = (length p \<le> length s \<and> drop (length s - length p) s = p)"

fun includesStr :: "string \<Rightarrow> string \<Rightarrow> bool" where
  "includesStr [] p = (p = [])"
| "includesStr (c # cs) p = (startsWith (c # cs) p \<or> includesStr cs p)"

definition isSpaceChar :: "char \<Rightarrow> bool" where
  "isSpaceChar c = (c \<in> set [CHR 0x09, CHR 0x0A, CHR 0x0B, CHR 0x0C, CHR 0x0D, CHR '' ''])"

definition isLineTerminator :: "char \<Rightarrow> bool" where
  "isLineTerminator c = (c = CHR 0x0A \<or> c = CHR 0x0D)"

definition trim :: "string \<Rightarrow> string" where
  "trim s = rev (dropWhile isSpaceChar (rev (dropWhile isSpaceChar s)))"

definition lowerChar :: "char \<Rightarrow> char" where
  "lowerChar c =
     (case map_of (zip ''ABCDEFGHIJKLMNOPQRSTUVWXYZ'' ''abcdefghijklmnopqrstuvwxyz'') c of
        Some l \<Rightarrow> l
      | None \<Rightarrow> c)"

definition toLowerCase :: "string \<Rightarrow> string" where
  "toLowerCase s = map lowerChar s"

fun joinWith :: "string \<Rightarrow> string list \<Rightarrow> string" where
  "joinWith sep [] = []"
| "joinWith sep [x] = x"
| "joinWith sep (x # y # ys) = x @ sep @ joinWith sep (y # ys)"

fun splitAcc :: "char \<Rightarrow> string \<Rightarrow> string \<Rightarrow> string list" where
  "splitAcc d acc [] = [rev acc]"
| "splitAcc d acc (c # cs) = (if c = d then rev acc # splitAcc d [] cs else splitAcc d (c # acc) cs)"

definition splitOn :: "char \<Rightarrow> string \<Rightarrow> string list" where
  "splitOn d s = splitAcc d [] s"

section \<open>Collaborators outside the repository's sources\<close>

text \<open>
  The selector grammar (\<^verbatim>\<open>parseSelector\<close>, \<^verbatim>\<open>parseAttributeSelector\<close>,
  \<^verbatim>\<open>stringifySelector\<close>) lives in \<^verbatim>\<open>utils/isomorphic/selectorParser\<close>, and
  \<^verbatim>\<open>JSON.parse\<close>, \<^verbatim>\<open>RegExp\<close>, \<^verbatim>\<open>URL\<close>, \<^verbatim>\<open>Number\<close> and
  \<^verbatim>\<open>YAML.dump\<close> belong to the platform. They are parameters of the model,
  collected in one record; a function that can throw returns \<open>None\<close> where it does.
  \<open>yamlDump\<close> is \<^verbatim>\<open>YAML.dump\<close> with the options \<^verbatim>\<open>YAML_DUMP_OPTIONS\<close>, and
  \<open>yamlDump_v1\<close> with the options of the earlier version of the generator. The
  three \<open>reflect\<close> functions give the JavaScript value of an object of the recorder
  or of the grammar where the generator embeds it in its debug output.
\<close>

datatype parsedSelector = ParsedSelector (parts: "selectorPart list") (capture: "int option")
  and selectorPart = SelectorPart (part_name: string) (part_body: partBody) (part_source: string)
  and partBody = BodyString string | BodyCss | BodyNested parsedSelector | BodyAbsent

record attributeSelectorPart =
  attr_name :: string
  attr_jsval :: jsval
  attr_caseSensitive :: bool
  attr_op :: string

record attributeSelector =
  sel_name :: string
  sel_attributes :: "attributeSelectorPart list"

record parsedURL =
  url_origin :: string
  url_protocol :: string
  url_hostname :: string
  url_pathname :: string
  url_search :: string
  url_hash :: string

record signal =
  signal_name :: string
  signal_url :: "string option"
  signal_popupAlias :: "string option"

text \<open>
  A recorded action. \<open>a_selector\<close> is \<open>None\<close> when the object has no
  \<^verbatim>\<open>selector\<close> key and \<open>Some None\<close> when the key holds \<^verbatim>\<open>null\<close> or
  \<^verbatim>\<open>undefined\<close>.
\<close>

record action =
  a_name :: string
  a_selector :: "string option option"
  a_url :: "string option"
  a_text :: "string option"
  a_key :: "string option"
  a_value :: "string option"
  a_checked :: "bool option"
  a_isNot :: bool
  a_options :: "string list"
  a_button :: "string option"
  a_modifiers :: "int option"
  a_clickCount :: "int option"
  a_signals :: "signal list"

record frameDescription =
  pageAlias :: string
  framePath :: "string list"

record actionInContext =
  aic_frame :: frameDescription
  aic_action :: action

record host =
  reflectAction :: "actionInContext \<Rightarrow> jsval"
  jsonParse :: "string \<Rightarrow> jsval option"
  newRegExp :: "string \<Rightarrow> string \<Rightarrow> (string \<times> string) option"
  parseSelector :: "string \<Rightarrow> parsedSelector option"
  parseAttributeSelector :: "partBody \<Rightarrow> attributeSelector"
  stringifySelector :: "parsedSelector \<Rightarrow> string"
  newURL :: "string \<Rightarrow> parsedURL option"
  toNumber :: "jsval \<Rightarrow> real option"
  numberOfInteger :: "int \<Rightarrow> int option"
  numberToString :: "real \<Rightarrow> string"
  yamlDump :: "jsval \<Rightarrow> string"
  yamlDump_v1 :: "jsval \<Rightarrow> string"
  reflectParsed :: "parsedSelector \<Rightarrow> jsval"
  reflectPart :: "selectorPart \<Rightarrow> jsval"

section \<open>TextMatcher parser\<close>

definition parseJsonString :: "host \<Rightarrow> string \<Rightarrow> string option" where
  "parseJsonString h q = (case jsonParse h q of Some (JStr v) \<Rightarrow> Some v | _ \<Rightarrow> None)"

definition regexSpecials :: "char list" where
  "regexSpecials = ''.*+?^${}()|[]'' @ [CHR 0x5C]"

definition escapeRegex :: "string \<Rightarrow> string" where
  "escapeRegex s = concat (map (\<lambda>c. if c \<in> set regexSpecials then [CHR 0x5C, c] else [c]) s)"

definition regexFlagChars :: "char list" where
  "regexFlagChars = ''dgimsuyv''"

text \<open>
  \<^verbatim>\<open>input.match(/^\/([\s\S]*)\/([dgimsuyv]*)$/)\<close>: the input starts with a slash, has a
  later slash, and only flag letters follow the last slash (a flag letter is never a
  slash, so the greedy body always ends at the last slash).
\<close>

definition matchRegexLiteral :: "string \<Rightarrow> (string \<times> string) option" where
  "matchRegexLiteral input =
     (case input of
        [] \<Rightarrow> None
      | c # rest \<Rightarrow>
          (let flags = rev (takeWhile (\<lambda>x. x \<noteq> CHR ''/'') (rev rest)) in
           if c = CHR ''/'' \<and> CHR ''/'' \<in> set rest \<and> list_all (\<lambda>x. x \<in> set regexFlagChars) flags
           then Some (take (length rest - length flags - 1) rest, flags)
           else None))"

definition textPattern :: "string \<Rightarrow> string \<Rightarrow> jsval" where
  "textPattern p f = JObj [(''pattern'', JStr p), (''flags'', JStr f)]"

definition textExact :: "string \<Rightarrow> jsval" where
  "textExact v = JObj [(''value'', JStr v), (''exact'', JBool True)]"

definition parseQuotedSuffix :: "host \<Rightarrow> string \<Rightarrow> jsval option" where
  "parseQuotedSuffix h input =
     (if endsWith input [CHR 0x22, CHR ''s''] \<or> endsWith input [CHR 0x22, CHR ''i''] then
        (let suffix = last input; quoted = butlast input in
         if startsWith quoted [CHR 0x22] \<and> endsWith quoted [CHR 0x22] then
           (case parseJsonString h quoted of
              Some decoded \<Rightarrow>
                Some (if suffix = CHR ''s'' then textExact decoded
                      else textPattern (escapeRegex decoded) ''i'')
            | None \<Rightarrow> None)
         else None)
      else None)"

definition parsePlainQuoted :: "host \<Rightarrow> string \<Rightarrow> jsval option" where
  "parsePlainQuoted h input =
     (if startsWith input [CHR 0x22] \<and> endsWith input [CHR 0x22] then
        (case parseJsonString h input of Some decoded \<Rightarrow> Some (JStr decoded) | None \<Rightarrow> None)
      else None)"

definition parseRegexLiteral :: "host \<Rightarrow> string \<Rightarrow> jsval option" where
  "parseRegexLiteral h input =
     (case matchRegexLiteral input of
        Some (body, flags) \<Rightarrow>
          (case newRegExp h body flags of
             Some (src, fl) \<Rightarrow> Some (textPattern src fl)
           | None \<Rightarrow> None)
      | None \<Rightarrow> None)"

definition parseTextSpec :: "host \<Rightarrow> string option \<Rightarrow> jsval" where
  "parseTextSpec h input =
     (case input of
        None \<Rightarrow> JUndefined
      | Some s \<Rightarrow>
          if s = [] then JUndefined
          else (case parseRegexLiteral h s of
                  Some m \<Rightarrow> m
                | None \<Rightarrow>
                    (case parseQuotedSuffix h s of
                       Some m \<Rightarrow> m
                     | None \<Rightarrow>
                         (case parsePlainQuoted h s of
                            Some m \<Rightarrow> m
                          | None \<Rightarrow> JStr s))))"

section \<open>Selector mapper\<close>

definition FILTER_ENGINES :: "string list" where
  "FILTER_ENGINES =
     [''internal:has-text'', ''internal:has-not-text'', ''internal:has'', ''internal:has-not'',
      ''visible'', ''nth'']"

definition IGNORE_ENGINES :: "string list" where
  "IGNORE_ENGINES = [''internal:describe'']"

text \<open>
  The backward \<^verbatim>\<open>for\<close> loop of base-index resolution; the second argument is
  \<open>i + 1\<close>, and the result \<open>-1\<close> means that the loop ran out.
\<close>

fun scanBack :: "selectorPart list \<Rightarrow> nat \<Rightarrow> int" where
  "scanBack ps 0 = - 1"
| "scanBack ps (Suc i) =
     (let name = part_name (ps ! i) in
      if name = [] then scanBack ps i
      else if name \<in> set IGNORE_ENGINES then scanBack ps i
      else if name \<notin> set FILTER_ENGINES then int i
      else scanBack ps i)"

text \<open>
  The \<^verbatim>\<open>while\<close> loop that steps back over ignored engines; the second argument is
  \<open>baseIndex + 1\<close>. An index past the end reads \<^verbatim>\<open>undefined\<close>, which is not in
  the ignore set.
\<close>

fun skipIgnored :: "selectorPart list \<Rightarrow> nat \<Rightarrow> int" where
  "skipIgnored ps 0 = - 1"
| "skipIgnored ps (Suc i) =
     (if i < length ps \<and> part_name (ps ! i) \<in> set IGNORE_ENGINES then skipIgnored ps i
      else int i)"

definition hasCapture :: "parsedSelector \<Rightarrow> bool" where
  "hasCapture parsed = (case capture parsed of Some c \<Rightarrow> 0 \<le> c | None \<Rightarrow> False)"

definition initialBaseIndex :: "parsedSelector \<Rightarrow> int" where
  "initialBaseIndex parsed =
     (if hasCapture parsed then the (capture parsed)
      else (let b = scanBack (parts parsed) (length (parts parsed)) in
            if b = - 1 then int (length (parts parsed)) - 1 else b))"

definition resolveBaseIndex :: "parsedSelector \<Rightarrow> int" where
  "resolveBaseIndex parsed = skipIgnored (parts parsed) (nat (initialBaseIndex parsed + 1))"

definition partAt :: "parsedSelector \<Rightarrow> int \<Rightarrow> selectorPart option" where
  "partAt parsed i =
     (if 0 \<le> i \<and> nat i < length (parts parsed) then Some (parts parsed ! nat i) else None)"

subsection \<open>Element construction\<close>

fun jsToString :: "host \<Rightarrow> jsval \<Rightarrow> string" where
  "jsToString h JUndefined = ''undefined''"
| "jsToString h JNull = ''null''"
| "jsToString h (JBool b) = (if b then ''true'' else ''false'')"
| "jsToString h (JNum r) = numberToString h r"
| "jsToString h (JStr s) = s"
| "jsToString h (JRegExp src fl) = ''/'' @ src @ ''/'' @ fl"
| "jsToString h (JArr xs) =
     joinWith '','' (map (\<lambda>x. if x = JUndefined \<or> x = JNull then [] else jsToString h x) xs)"
| "jsToString h (JObj kvs) = ''[object Object]''"

text \<open>
  \<^verbatim>\<open>parseTextSpec(part.body as string | undefined)\<close>: an absent body is
  \<^verbatim>\<open>undefined\<close>; a body that is an object passes \<^verbatim>\<open>!input\<close> and fails at
  \<^verbatim>\<open>input.match\<close>.
\<close>

definition textSpecOfBody :: "host \<Rightarrow> partBody \<Rightarrow> error + jsval" where
  "textSpecOfBody h b =
     (case b of
        BodyString s \<Rightarrow> Inr (parseTextSpec h (Some s))
      | BodyAbsent \<Rightarrow> Inr (parseTextSpec h None)
      | _ \<Rightarrow> Inl TypeError)"

definition asBool :: "attributeSelectorPart \<Rightarrow> bool option" where
  "asBool attr =
     (if attr_op attr = ''<truthy>'' then Some True
      else (case attr_jsval attr of
              JBool b \<Rightarrow> Some b
            | JStr v \<Rightarrow>
                (let s = toLowerCase v in
                 if s = ''true'' then Some True
                 else if s = ''false'' then Some False
                 else None)
            | _ \<Rightarrow> None))"

definition roleNameMatcher :: "host \<Rightarrow> attributeSelectorPart \<Rightarrow> jsval option" where
  "roleNameMatcher h attr =
     (case attr_jsval attr of
        JRegExp src fl \<Rightarrow> Some (textPattern src fl)
      | JNull \<Rightarrow> None
      | JUndefined \<Rightarrow> None
      | v \<Rightarrow> (let s = jsToString h v in
              if attr_caseSensitive attr then Some (textExact s) else Some (JStr s)))"

definition roleAttribute ::
  "host \<Rightarrow> (string \<times> jsval) list \<Rightarrow> attributeSelectorPart \<Rightarrow> (string \<times> jsval) list" where
  "roleAttribute h element attr =
     (let name = attr_name attr in
      if name = ''name'' then
        (case roleNameMatcher h attr of
           Some matcher \<Rightarrow> AList.update ''name'' matcher element
         | None \<Rightarrow> element)
      else if name = ''include-hidden'' then
        (case asBool attr of
           Some v \<Rightarrow> AList.update ''include_hidden'' (JBool v) element
         | None \<Rightarrow> element)
      else if name = ''level'' then
        (case (case attr_jsval attr of JNum r \<Rightarrow> Some r | raw \<Rightarrow> toNumber h raw) of
           Some n \<Rightarrow> AList.update ''level'' (JNum n) element
         | None \<Rightarrow> element)
      else if name \<in> set [''checked'', ''pressed'', ''selected'', ''expanded'', ''disabled''] then
        (case asBool attr of
           Some v \<Rightarrow> AList.update name (JBool v) element
         | None \<Rightarrow>
             (case attr_jsval attr of
                JStr s \<Rightarrow> AList.update name (JStr s) element
              | _ \<Rightarrow> element))
      else element)"

text \<open>
  \<^verbatim>\<open>body.match(/=\s*(.+)\s*\]$/)\<close>, tried at each equals sign from the left. The
  string has to end with a closing bracket. Behind the leading white space the greedy
  group runs up to the first line terminator (the dot does not match one), and what
  follows up to the bracket has to be white space. When only white space stands
  between the equals sign and the bracket, the group is its last character that is not
  a line terminator.
\<close>

definition rawValueAfterEq :: "string \<Rightarrow> string option" where
  "rawValueAfterEq rest =
     (if rest = [] \<or> last rest \<noteq> CHR '']'' then None
      else (let core = butlast rest; r = dropWhile isSpaceChar core in
            if r \<noteq> [] then
              (if list_all isSpaceChar (dropWhile (\<lambda>c. \<not> isLineTerminator c) r)
               then Some (takeWhile (\<lambda>c. \<not> isLineTerminator c) r)
               else None)
            else (case dropWhile isLineTerminator (rev core) of
                    [] \<Rightarrow> None
                  | c # _ \<Rightarrow> Some [c])))"

fun rawValueSource :: "string \<Rightarrow> string option" where
  "rawValueSource [] = None"
| "rawValueSource (c # cs) =
     (if c = CHR ''=''
      then (case rawValueAfterEq cs of Some m \<Rightarrow> Some m | None \<Rightarrow> rawValueSource cs)
      else rawValueSource cs)"

definition attrElement ::
  "host \<Rightarrow> parsedSelector \<Rightarrow> selectorPart \<Rightarrow> (string \<times> jsval) list" where
  "attrElement h parsed basePart =
     (case sel_attributes (parseAttributeSelector h (part_body basePart)) of
        [] \<Rightarrow> [(''css'', JStr (stringifySelector h parsed))]
      | first # _ \<Rightarrow>
          (let attrName = toLowerCase (attr_name first);
               body = (case part_body basePart of BodyString s \<Rightarrow> s
                       | BodyAbsent \<Rightarrow> []
                       | _ \<Rightarrow> ''[object Object]'');
               textMatcher = (case rawValueSource body of
                                Some src \<Rightarrow> parseTextSpec h (Some src)
                              | None \<Rightarrow> JUndefined);
               v = (if textMatcher = JUndefined \<or> textMatcher = JNull then attr_jsval first
                    else textMatcher)
           in if attrName = ''alt'' then [(''alt'', v)]
              else if attrName = ''title'' then [(''title'', v)]
              else if attrName = ''placeholder'' then [(''placeholder'', v)]
              else [(''css'', JStr (stringifySelector h parsed))]))"

definition mapBasePart ::
  "host \<Rightarrow> parsedSelector \<Rightarrow> selectorPart \<Rightarrow> error + (string \<times> jsval) list" where
  "mapBasePart h parsed basePart =
     (let name = part_name basePart in
      if name = ''internal:testid'' then
        (case sel_attributes (parseAttributeSelector h (part_body basePart)) of
           [] \<Rightarrow> Inl TypeError
         | first # _ \<Rightarrow> Inr [(''testId'', attr_jsval first)])
      else if name = ''internal:role'' then
        (let attrSelector = parseAttributeSelector h (part_body basePart) in
         Inr (foldl (roleAttribute h) [(''role'', JStr (sel_name attrSelector))]
                (sel_attributes attrSelector)))
      else if name = ''internal:text'' then
        (case textSpecOfBody h (part_body basePart) of
           Inl e \<Rightarrow> Inl e
         | Inr m \<Rightarrow> Inr [(''text'', m)])
      else if name = ''css'' \<or> name = ''css:light'' then
        Inr [(''css'', JStr (part_source basePart))]
      else if name = ''xpath'' then
        Inr [(''xpath'', JStr (part_source basePart))]
      else if name = ''internal:label'' then
        (case textSpecOfBody h (part_body basePart) of
           Inl e \<Rightarrow> Inl e
         | Inr m \<Rightarrow> Inr [(''label'', m)])
      else if name = ''internal:placeholder'' then
        (case textSpecOfBody h (part_body basePart) of
           Inl e \<Rightarrow> Inl e
         | Inr m \<Rightarrow> Inr [(''placeholder'', m)])
      else if name = ''internal:attr'' then
        Inr (attrElement h parsed basePart)
      else Inr [(''css'', JStr (stringifySelector h parsed))])"

subsection \<open>Filter construction\<close>

record parsedSelectorResult =
  res_element :: jsval
  res_filters :: "(string \<times> jsval) list option"
  res_nth :: "int option"

definition resultToJs :: "parsedSelectorResult \<Rightarrow> jsval" where
  "resultToJs r =
     JObj [(''element'', res_element r),
           (''filters'', (case res_filters r of Some f \<Rightarrow> JObj f | None \<Rightarrow> JUndefined)),
           (''nth'', (case res_nth r of Some n \<Rightarrow> JNum (of_int n) | None \<Rightarrow> JUndefined))]"

text \<open>\<^verbatim>\<open>(filters ??= {})[k] = v\<close>\<close>

definition setFilter ::
  "string \<Rightarrow> jsval \<Rightarrow> (string \<times> jsval) list option \<Rightarrow> (string \<times> jsval) list option" where
  "setFilter k v filters =
     Some (AList.update k v (case filters of Some f \<Rightarrow> f | None \<Rightarrow> []))"

definition visibleOfBody :: "partBody \<Rightarrow> bool" where
  "visibleOfBody b =
     (case b of
        BodyString raw \<Rightarrow> toLowerCase (trim raw) \<noteq> ''false''
      | _ \<Rightarrow> True)"

definition digitChars :: "char list" where
  "digitChars = ''0123456789''"

definition digitValue :: "char \<Rightarrow> nat" where
  "digitValue c = (case map_of (zip digitChars [0 ..< 10]) c of Some d \<Rightarrow> d | None \<Rightarrow> 0)"

definition digitsValue :: "string \<Rightarrow> int" where
  "digitsValue ds = foldl (\<lambda>acc c. 10 * acc + int (digitValue c)) 0 ds"

text \<open>
  The integer that \<^verbatim>\<open>parseInt(s, 10)\<close> reads: leading white space, an optional sign,
  then the longest run of decimal digits; \<open>None\<close> is \<^verbatim>\<open>NaN\<close>.
\<close>

definition parseInt10 :: "string \<Rightarrow> int option" where
  "parseInt10 s =
     (let t = dropWhile isSpaceChar s;
          neg = (t \<noteq> [] \<and> hd t = CHR ''-'');
          u = (if t \<noteq> [] \<and> (hd t = CHR ''-'' \<or> hd t = CHR ''+'') then tl t else t);
          ds = takeWhile (\<lambda>c. c \<in> set digitChars) u
      in if ds = [] then None
         else Some (if neg then - digitsValue ds else digitsValue ds))"

text \<open>
  The result of \<^verbatim>\<open>parseInt\<close> is a \<^verbatim>\<open>Number\<close>. Up to \<open>2^53\<close> in magnitude every
  integer is one; beyond, the platform rounds to a double (\<open>numberOfInteger\<close>, an integer
  again), or to \<^verbatim>\<open>Infinity\<close>, which \<^verbatim>\<open>Number.isFinite\<close> refuses: the result
  \<open>None\<close> of \<open>numberOfInteger\<close>. The sign of zero is not kept: \<^verbatim>\<open>-0\<close> is 0.
\<close>

definition finiteNumber :: "host \<Rightarrow> int \<Rightarrow> int option" where
  "finiteNumber h n = (if \<bar>n\<bar> \<le> 2 ^ 53 then Some n else numberOfInteger h n)"

text \<open>
  \<^verbatim>\<open>parseInt(String(part.body ?? ''), 10)\<close> when \<^verbatim>\<open>Number.isFinite\<close> accepts it. A
  body that is not a string reads \<^verbatim>\<open>[object Object]\<close>.
\<close>

definition nthOfBody :: "host \<Rightarrow> partBody \<Rightarrow> int option" where
  "nthOfBody h b =
     (case b of
        BodyString s \<Rightarrow> (case parseInt10 s of Some n \<Rightarrow> finiteNumber h n | None \<Rightarrow> None)
      | _ \<Rightarrow> None)"

definition nestedParsed :: "partBody \<Rightarrow> parsedSelector option" where
  "nestedParsed b = (case b of BodyNested p \<Rightarrow> Some p | _ \<Rightarrow> None)"

text \<open>
  The body of the loop over the parts behind the base part. The recursive call of the
  mapper on a nested selector is the parameter \<open>recur\<close>.
\<close>

definition applyFilterPart ::
  "host \<Rightarrow> (string \<Rightarrow> error + parsedSelectorResult option) \<Rightarrow>
   (string \<times> jsval) list option \<times> int option \<Rightarrow> selectorPart \<Rightarrow>
   error + ((string \<times> jsval) list option \<times> int option)" where
  "applyFilterPart h recur acc part =
     (let name = part_name part; filters = fst acc; nthv = snd acc in
      if name = ''internal:describe'' then Inr acc
      else if name = ''internal:has-text'' then
        (case textSpecOfBody h (part_body part) of
           Inl e \<Rightarrow> Inl e
         | Inr m \<Rightarrow> Inr (setFilter ''hasText'' m filters, nthv))
      else if name = ''internal:has-not-text'' then
        (case textSpecOfBody h (part_body part) of
           Inl e \<Rightarrow> Inl e
         | Inr m \<Rightarrow> Inr (setFilter ''hasNotText'' m filters, nthv))
      else if name = ''visible'' then
        Inr (setFilter ''visible'' (JBool (visibleOfBody (part_body part))) filters, nthv)
      else if name = ''internal:has'' \<or> name = ''internal:has-not'' then
        (case nestedParsed (part_body part) of
           None \<Rightarrow> Inr acc
         | Some p \<Rightarrow>
             (case recur (stringifySelector h p) of
                Inl e \<Rightarrow> Inl e
              | Inr None \<Rightarrow> Inr acc
              | Inr (Some nested) \<Rightarrow>
                  Inr (setFilter (if name = ''internal:has'' then ''has'' else ''hasNot'')
                         (resultToJs nested) filters, nthv)))
      else if name = ''nth'' then
        (case nthOfBody h (part_body part) of
           Some n \<Rightarrow> Inr (filters, Some n)
         | None \<Rightarrow> Inr acc)
      else Inr acc)"

fun applyFilterParts ::
  "host \<Rightarrow> (string \<Rightarrow> error + parsedSelectorResult option) \<Rightarrow>
   (string \<times> jsval) list option \<times> int option \<Rightarrow> selectorPart list \<Rightarrow>
   error + ((string \<times> jsval) list option \<times> int option)" where
  "applyFilterParts h recur acc [] = Inr acc"
| "applyFilterParts h recur acc (part # rest) =
     (case applyFilterPart h recur acc part of
        Inl e \<Rightarrow> Inl e
      | Inr acc' \<Rightarrow> applyFilterParts h recur acc' rest)"

definition cssFallback :: "string \<Rightarrow> parsedSelectorResult" where
  "cssFallback raw =
     \<lparr>res_element = JObj [(''css'', JStr raw)], res_filters = None, res_nth = None\<rparr>"

text \<open>
  The body of \<^verbatim>\<open>elementFromParsedSelector\<close>. \<open>Inr None\<close> is the result
  \<^verbatim>\<open>undefined\<close>, \<open>Inl\<close> an exception that leaves the function.
\<close>

definition mapSelector ::
  "host \<Rightarrow> (string \<Rightarrow> error + parsedSelectorResult option) \<Rightarrow> string option \<Rightarrow>
   error + parsedSelectorResult option" where
  "mapSelector h recur raw =
     (case raw of
        None \<Rightarrow> Inr None
      | Some r \<Rightarrow>
          if r = [] then Inr None
          else (case parseSelector h r of
                  None \<Rightarrow> Inr None
                | Some parsed \<Rightarrow>
                    (let baseIndex = resolveBaseIndex parsed in
                     if baseIndex < 0 then Inr (Some (cssFallback r))
                     else (case partAt parsed baseIndex of
                             None \<Rightarrow> Inr (Some (cssFallback r))
                           | Some basePart \<Rightarrow>
                               (case mapBasePart h parsed basePart of
                                  Inl e \<Rightarrow> Inl e
                                | Inr element \<Rightarrow>
                                    (case applyFilterParts h recur (None, None)
                                            (drop (nat baseIndex + 1) (parts parsed)) of
                                       Inl e \<Rightarrow> Inl e
                                     | Inr (filters, nthv) \<Rightarrow>
                                         Inr (Some \<lparr>res_element = JObj element,
                                                    res_filters = filters,
                                                    res_nth = nthv\<rparr>)))))))"

text \<open>
  The recursion of the mapper goes through \<^verbatim>\<open>stringifySelector\<close> and
  \<^verbatim>\<open>parseSelector\<close>, which are parameters here, so it is bounded by fuel: the number
  of nested \<^verbatim>\<open>has\<close>/\<^verbatim>\<open>has-not\<close> levels that may be resolved.
\<close>

primrec elementFromParsedSelector ::
  "host \<Rightarrow> nat \<Rightarrow> string option \<Rightarrow> error + parsedSelectorResult option" where
  "elementFromParsedSelector h 0 = mapSelector h (\<lambda>_. Inl FuelExhausted)"
| "elementFromParsedSelector h (Suc n) = mapSelector h (\<lambda>r. elementFromParsedSelector h n (Some r))"

section \<open>Structured selector of an action\<close>

text \<open>\<^verbatim>\<open>sel.match(/^frame\[name="(.+)"\]$/)\<close>\<close>

definition frameRefFromString :: "string \<Rightarrow> jsval" where
  "frameRefFromString sel =
     (let pre = ''frame[name='' @ [CHR 0x22]; suf = [CHR 0x22, CHR '']''];
          mid = take (length sel - length pre - length suf) (drop (length pre) sel)
      in if startsWith sel pre \<and> endsWith sel suf \<and> length pre + length suf < length sel
            \<and> \<not> list_ex isLineTerminator mid
         then JObj [(''name'', JStr mid)]
         else JObj [(''url_contains'', JStr sel)])"

definition framePathToObjects :: "string list \<Rightarrow> jsval" where
  "framePathToObjects path = (if path = [] then JUndefined else JArr (map frameRefFromString path))"

definition isActionWithSelector :: "action \<Rightarrow> bool" where
  "isActionWithSelector a = (a_selector a \<noteq> None)"

definition selectorFrame :: "frameDescription \<Rightarrow> (string \<times> jsval) list" where
  "selectorFrame frame =
     (let s1 = (if pageAlias frame \<noteq> [] then [(''page'', JStr (pageAlias frame))] else []);
          fp = framePathToObjects (framePath frame)
      in if fp \<noteq> JUndefined then AList.update ''framePath'' fp s1 else s1)"

definition buildStructuredSelector ::
  "host \<Rightarrow> nat \<Rightarrow> actionInContext \<Rightarrow> error + (string \<times> jsval) list" where
  "buildStructuredSelector h fuel actionInContext =
     (let selector = selectorFrame (aic_frame actionInContext);
          a = aic_action actionInContext
      in case a_selector a of
           None \<Rightarrow> Inr selector
         | Some sel \<Rightarrow>
             (let raw = sel in
              case elementFromParsedSelector h fuel raw of
                Inl e \<Rightarrow> Inl e
              | Inr None \<Rightarrow>
                  Inr (AList.update ''element''
                         (JObj [(''css'', JStr (case raw of Some r \<Rightarrow> r | None \<Rightarrow> ''UNKNOWN''))])
                         selector)
              | Inr (Some mapped) \<Rightarrow>
                  (let s1 = AList.update ''element'' (res_element mapped) selector;
                       s2 = (case res_filters mapped of
                               Some f \<Rightarrow> AList.update ''filters'' (JObj f) s1
                             | None \<Rightarrow> s1)
                   in Inr (case res_nth mapped of
                             Some n \<Rightarrow> AList.update ''nth'' (JNum (of_int n)) s2
                           | None \<Rightarrow> s2))))"

section \<open>Default stripping and formatting\<close>

text \<open>
  \<^verbatim>\<open>Object.entries\<close> lists every key once, so each \<^verbatim>\<open>out[k] = v\<close> of the two
  strippers appends a new key. A \<^verbatim>\<open>RegExp\<close> is an object without enumerable
  properties of its own.
\<close>

fun stripDefaults :: "(string \<times> jsval) list \<Rightarrow> (string \<times> jsval) list" where
  "stripDefaults [] = []"
| "stripDefaults ((k, v) # rest) =
     (if v = JNull \<or> v = JUndefined then stripDefaults rest
      else if k = ''modifiers'' \<and> v = JNum 0 then stripDefaults rest
      else if k = ''framePath'' \<and> v = JArr [] then stripDefaults rest
      else (case v of
              JObj kvs \<Rightarrow>
                (let nested = stripDefaults kvs in
                 if nested \<noteq> [] then (k, JObj nested) # stripDefaults rest
                 else stripDefaults rest)
            | JRegExp src fl \<Rightarrow> stripDefaults rest
            | _ \<Rightarrow> (k, v) # stripDefaults rest))"

fun decimal :: "nat \<Rightarrow> string" where
  "decimal n = (if n < 10 then [digitChars ! n] else decimal (n div 10) @ [digitChars ! (n mod 10)])"

text \<open>
  \<^verbatim>\<open>stripEmpty\<close>: \<open>stripEmptyObj\<close> is the function on an object,
  \<open>stripEmptyArr\<close> the same function on an array that is itself an element of an array
  (its entries are its indices), \<open>stripEmptyField\<close> one round of the loop and
  \<open>stripEmptyItems\<close> the \<^verbatim>\<open>v.map(...)\<close> over a non-empty array.
\<close>

fun stripEmptyObj :: "(string \<times> jsval) list \<Rightarrow> (string \<times> jsval) list"
  and stripEmptyArr :: "nat \<Rightarrow> jsval list \<Rightarrow> (string \<times> jsval) list"
  and stripEmptyField :: "string \<Rightarrow> jsval \<Rightarrow> (string \<times> jsval) list"
  and stripEmptyItems :: "jsval list \<Rightarrow> jsval list" where
  "stripEmptyObj [] = []"
| "stripEmptyObj ((k, v) # rest) = stripEmptyField k v @ stripEmptyObj rest"
| "stripEmptyArr i [] = []"
| "stripEmptyArr i (v # vs) = stripEmptyField (decimal i) v @ stripEmptyArr (Suc i) vs"
| "stripEmptyField k JUndefined = []"
| "stripEmptyField k JNull = []"
| "stripEmptyField k (JArr xs) = (if xs = [] then [] else [(k, JArr (stripEmptyItems xs))])"
| "stripEmptyField k (JObj kvs) =
     (let nested = stripEmptyObj kvs in if nested = [] then [] else [(k, JObj nested)])"
| "stripEmptyField k (JRegExp src fl) = []"
| "stripEmptyField k (JBool b) = [(k, JBool b)]"
| "stripEmptyField k (JNum n) = [(k, JNum n)]"
| "stripEmptyField k (JStr s) = [(k, JStr s)]"
| "stripEmptyItems [] = []"
| "stripEmptyItems (x # xs) =
     (case x of
        JObj kvs \<Rightarrow> JObj (stripEmptyObj kvs)
      | JArr ys \<Rightarrow> JObj (stripEmptyArr 0 ys)
      | JRegExp src fl \<Rightarrow> JObj []
      | _ \<Rightarrow> x) # stripEmptyItems xs"

definition stripEmpty :: "(string \<times> jsval) list \<Rightarrow> (string \<times> jsval) list" where
  "stripEmpty obj = stripEmptyObj obj"

text \<open>\<^verbatim>\<open>s.replace(/\r\n?/g, '\n')\<close>\<close>

fun normalizeNewlines :: "string \<Rightarrow> string" where
  "normalizeNewlines [] = []"
| "normalizeNewlines [c] = (if c = CHR 0x0D then [CHR 0x0A] else [c])"
| "normalizeNewlines (c # d # cs) =
     (if c = CHR 0x0D then
        (if d = CHR 0x0A then CHR 0x0A # normalizeNewlines cs
         else CHR 0x0A # normalizeNewlines (d # cs))
      else c # normalizeNewlines (d # cs))"

definition dropTrailingNewline :: "string \<Rightarrow> string" where
  "dropTrailingNewline s = (if endsWith s [CHR 0x0A] then butlast s else s)"

definition formatAsYamlListItem :: "host \<Rightarrow> jsval \<Rightarrow> string" where
  "formatAsYamlListItem h entry =
     (let dumped = normalizeNewlines (yamlDump h entry);
          lines = splitOn (CHR 0x0A) (dropTrailingNewline dumped)
      in joinWith [CHR 0x0A]
           (map (\<lambda>(i, line). if i = 0 then ''  - '' @ line else ''    '' @ line)
              (zip [0 ..< length lines] lines))
         @ [CHR 0x0A])"

section \<open>Action mapper\<close>

text \<open>\<^verbatim>\<open>/password|pwd|secret/i.test(s)\<close>\<close>

definition secretPattern :: "string \<Rightarrow> bool" where
  "secretPattern s =
     (let l = toLowerCase s in
      includesStr l ''password'' \<or> includesStr l ''pwd'' \<or> includesStr l ''secret'')"

text \<open>
  \<^verbatim>\<open>matchText\<close>: the \<^verbatim>\<open>in\<close> operator throws on a value that is not an object.
\<close>

definition matchText :: "jsval \<Rightarrow> error + bool" where
  "matchText t =
     (case t of
        JStr s \<Rightarrow> Inr (secretPattern s)
      | JObj kvs \<Rightarrow>
          Inr ((case map_of kvs ''value'' of Some (JStr v) \<Rightarrow> secretPattern v | _ \<Rightarrow> False)
               \<or> (case map_of kvs ''pattern'' of Some (JStr p) \<Rightarrow> secretPattern p | _ \<Rightarrow> False))
      | JArr xs \<Rightarrow> Inr False
      | JRegExp src fl \<Rightarrow> Inr False
      | _ \<Rightarrow> Inl TypeError)"

definition truthy :: "jsval \<Rightarrow> bool" where
  "truthy v =
     (case v of
        JUndefined \<Rightarrow> False
      | JNull \<Rightarrow> False
      | JBool b \<Rightarrow> b
      | JNum n \<Rightarrow> n \<noteq> 0
      | JStr s \<Rightarrow> s \<noteq> []
      | _ \<Rightarrow> True)"

definition isObject :: "jsval \<Rightarrow> bool" where
  "isObject v = (case v of JObj kvs \<Rightarrow> True | JArr xs \<Rightarrow> True | JRegExp src fl \<Rightarrow> True | _ \<Rightarrow> False)"

definition maskToken :: string where
  "maskToken = ''${env:ANET_PASSWORD}''"

definition nullishOr :: "jsval \<Rightarrow> jsval \<Rightarrow> jsval" where
  "nullishOr v d = (if v = JUndefined \<or> v = JNull then d else v)"

definition maybeMaskValue :: "host \<Rightarrow> jsval \<Rightarrow> string option \<Rightarrow> error + string option" where
  "maybeMaskValue h el txt =
     (if \<not> truthy el then Inr txt
      else if txt = None then Inr txt
      else if \<not> isObject el then Inl TypeError
      else if hasProp ''testId'' el \<and> secretPattern (jsToString h (getProp ''testId'' el))
        then Inr (Some maskToken)
      else (case (if hasProp ''label'' el then matchText (getProp ''label'' el) else Inr False) of
              Inl e \<Rightarrow> Inl e
            | Inr True \<Rightarrow> Inr (Some maskToken)
            | Inr False \<Rightarrow>
      (case (if hasProp ''placeholder'' el then matchText (getProp ''placeholder'' el)
             else Inr False) of
              Inl e \<Rightarrow> Inl e
            | Inr True \<Rightarrow> Inr (Some maskToken)
            | Inr False \<Rightarrow>
      if hasProp ''role'' el
         \<and> secretPattern (jsToString h (nullishOr (getProp ''name'' el) (JStr [])))
        then Inr (Some maskToken)
      else (case (if hasProp ''text'' el then matchText (getProp ''text'' el) else Inr False) of
              Inl e \<Rightarrow> Inl e
            | Inr True \<Rightarrow> Inr (Some maskToken)
            | Inr False \<Rightarrow>
      if hasProp ''css'' el \<and> secretPattern (jsToString h (getProp ''css'' el))
        then Inr (Some maskToken)
      else if hasProp ''xpath'' el \<and> secretPattern (jsToString h (getProp ''xpath'' el))
        then Inr (Some maskToken)
      else Inr txt))))"

definition decodeModifiers :: "int option \<Rightarrow> jsval" where
  "decodeModifiers modifiers =
     (case modifiers of
        None \<Rightarrow> JUndefined
      | Some m \<Rightarrow>
          if m = 0 then JUndefined
          else (let result = (if bit m 0 then [JStr ''Alt''] else [])
                           @ (if bit m 1 then [JStr ''Control''] else [])
                           @ (if bit m 2 then [JStr ''Meta''] else [])
                           @ (if bit m 3 then [JStr ''Shift''] else [])
                in if result \<noteq> [] then JArr result else JUndefined))"

definition TRIVIAL_URL_PREFIXES :: "string list" where
  "TRIVIAL_URL_PREFIXES =
     [''about:blank'', ''chrome-error://'', ''devtools://'', ''edge://'', ''data:'', ''blob:'',
      ''chrome-extension://'']"

definition isTrivialUrl :: "string option \<Rightarrow> bool" where
  "isTrivialUrl url =
     (case url of
        None \<Rightarrow> True
      | Some u \<Rightarrow> u = [] \<or> list_ex (\<lambda>p. startsWith u p) TRIVIAL_URL_PREFIXES)"

definition toUrlHint :: "host \<Rightarrow> string option \<Rightarrow> (string \<times> jsval) list option" where
  "toUrlHint h url =
     (case url of
        None \<Rightarrow> None
      | Some u \<Rightarrow>
          if u = [] then None
          else (case newURL h u of
                  Some p \<Rightarrow>
                    if url_protocol p = ''http:'' \<or> url_protocol p = ''https:''
                    then Some [(''url_exact'', JStr u)]
                    else Some [(''url_contains'', JStr u)]
                | None \<Rightarrow> Some [(''url_contains'', JStr u)]))"

definition expectationOf :: "host \<Rightarrow> signal \<Rightarrow> jsval list" where
  "expectationOf h sg =
     (if signal_name sg = ''navigation'' then
        [JObj ((''expect'', JStr ''navigation'')
               # (case toUrlHint h (signal_url sg) of Some hint \<Rightarrow> hint | None \<Rightarrow> []))]
      else if signal_name sg = ''popup'' then
        [JObj [(''expect'', JStr ''popup''),
               (''pageAlias'', (case signal_popupAlias sg of Some a \<Rightarrow> JStr a | None \<Rightarrow> JUndefined))]]
      else if signal_name sg = ''download'' then [JObj [(''expect'', JStr ''download'')]]
      else if signal_name sg = ''dialog'' then [JObj [(''expect'', JStr ''dialog'')]]
      else [])"

definition expectFromSignals :: "host \<Rightarrow> action \<Rightarrow> jsval" where
  "expectFromSignals h a =
     (if a_signals a = [] then JUndefined
      else (let expectations = concat (map (expectationOf h) (a_signals a)) in
            if expectations \<noteq> [] then JArr expectations else JUndefined))"

section \<open>Diagnostics of the selector mapper\<close>

text \<open>
  In debug mode the mapper records what it resolved in \<^verbatim>\<open>debug.parsed_selector\<close>.
  The record never changes the mapped result, so it is computed on its own: the value
  of \<^verbatim>\<open>debug.parsed_selector\<close> after a call of the mapper that returned.
\<close>

definition roleWarnings :: "attributeSelectorPart list \<Rightarrow> string list" where
  "roleWarnings attrs =
     map (\<lambda>a. ''unhandled internal:role attribute ['' @ attr_name a @ '']'')
       (filter (\<lambda>a. attr_name a \<notin> set [''name'', ''include-hidden'', ''level'', ''checked'',
                                           ''pressed'', ''selected'', ''expanded'', ''disabled''])
          attrs)"

definition baseWarnings :: "host \<Rightarrow> selectorPart \<Rightarrow> string list" where
  "baseWarnings h basePart =
     (let name = part_name basePart in
      if name = ''internal:role'' then
        roleWarnings (sel_attributes (parseAttributeSelector h (part_body basePart)))
      else if name = ''internal:attr'' then
        (case sel_attributes (parseAttributeSelector h (part_body basePart)) of
           [] \<Rightarrow> [''internal:attr without attributes'']
         | first # _ \<Rightarrow>
             (let attrName = toLowerCase (attr_name first) in
              if attrName \<in> set [''alt'', ''title'', ''placeholder''] then []
              else [''unhandled internal:attr attribute ['' @ attrName @ '']'']))
      else if name \<in> set [''internal:testid'', ''internal:text'', ''css'', ''css:light'', ''xpath'',
                           ''internal:label'', ''internal:placeholder''] then []
      else [''unhandled engine '' @ name])"

definition filterWarnings :: "selectorPart list \<Rightarrow> string list" where
  "filterWarnings ps =
     map (\<lambda>p. ''unhandled parsed attribute part '' @ part_name p)
       (filter (\<lambda>p. part_name p \<notin> set (''internal:describe'' # FILTER_ENGINES)) ps)"

definition selectorDebug :: "host \<Rightarrow> string option \<Rightarrow> jsval option" where
  "selectorDebug h raw =
     (case raw of
        None \<Rightarrow> None
      | Some r \<Rightarrow>
          if r = [] then None
          else (case parseSelector h r of
                  None \<Rightarrow> None
                | Some parsed \<Rightarrow>
                    (let baseIndex = resolveBaseIndex parsed in
                     if baseIndex < 0 then None
                     else (case partAt parsed baseIndex of
                             None \<Rightarrow>
                               Some (JObj [(''parsed'', reflectParsed h parsed),
                                           (''baseIndex'', JNum (of_int baseIndex)),
                                           (''basePart'', JUndefined)])
                           | Some basePart \<Rightarrow>
                               (let warnings = baseWarnings h basePart
                                      @ filterWarnings (drop (nat baseIndex + 1) (parts parsed))
                                in Some (JObj ([(''parsed'', reflectParsed h parsed),
                                                (''baseIndex'', JNum (of_int baseIndex)),
                                                (''basePart'', reflectPart h basePart)]
                                               @ (if warnings = [] then []
                                                  else [(''warnings'', JArr (map JStr warnings))]))))))))"

section \<open>Scenario emitter\<close>

record emitter =
  headerEmitted :: bool
  seedUrl :: "string option"
  meta_version :: string
  meta_name :: string
  meta_baseURL :: "string option"
  debugMode :: bool

definition initialEmitter :: emitter where
  "initialEmitter =
     \<lparr>headerEmitted = False, seedUrl = None, meta_version = ''0.2'',
      meta_name = ''Recorded Scenario'', meta_baseURL = None, debugMode = False\<rparr>"

definition metaObject :: "emitter \<Rightarrow> (string \<times> jsval) list" where
  "metaObject s =
     [(''version'', JStr (meta_version s)), (''name'', JStr (meta_name s)),
      (''baseURL'', (case meta_baseURL s of Some u \<Rightarrow> JStr u | None \<Rightarrow> JUndefined))]"

definition emitHeaderOnce :: "host \<Rightarrow> emitter \<Rightarrow> string list \<times> emitter" where
  "emitHeaderOnce h s =
     (if headerEmitted s then ([], s)
      else ([dropTrailingNewline (normalizeNewlines (yamlDump h (JObj (stripEmpty (metaObject s))))),
             ''steps:'', []],
            s\<lparr>headerEmitted := True\<rparr>))"

definition nonEmpty :: "string option \<Rightarrow> string option" where
  "nonEmpty v = (case v of Some u \<Rightarrow> if u = [] then None else Some u | None \<Rightarrow> None)"

text \<open>
  \<^verbatim>\<open>generateHeader\<close>; \<open>env\<close> is \<^verbatim>\<open>process.env.GENFEST_HTML_DIR\<close> and
  \<open>baseURL\<close> is \<^verbatim>\<open>options?.contextOptions?.baseURL\<close>. \<^verbatim>\<open>new URL\<close> throws on
  a seed that is not a URL; the fields assigned before the throw are not tracked.
\<close>

definition generateHeader ::
  "host \<Rightarrow> string option \<Rightarrow> string option \<Rightarrow> emitter \<Rightarrow> error + (string \<times> emitter)" where
  "generateHeader h env baseURL s =
     (let dbg = (debugMode s \<or> nonEmpty env \<noteq> None);
          seed = nonEmpty baseURL
      in case (case seed of
                 Some u \<Rightarrow> (case newURL h u of Some p \<Rightarrow> Inr (url_hostname p) | None \<Rightarrow> Inl TypeError)
               | None \<Rightarrow> Inr ''Recorded Scenario'') of
           Inl e \<Rightarrow> Inl e
         | Inr name \<Rightarrow>
             Inr (''# Generated by Genfest'',
                  s\<lparr>debugMode := dbg, seedUrl := seed, meta_name := name, meta_baseURL := seed,
                    headerEmitted := False\<rparr>))"

definition generateFooter :: "string option \<Rightarrow> string" where
  "generateFooter saveStorage = []"

definition optStr :: "string option \<Rightarrow> jsval" where
  "optStr v = (case v of Some x \<Rightarrow> JStr x | None \<Rightarrow> JUndefined)"

definition optNum :: "int option \<Rightarrow> jsval" where
  "optNum v = (case v of Some x \<Rightarrow> JNum (of_int x) | None \<Rightarrow> JUndefined)"

definition optBool :: "bool option \<Rightarrow> jsval" where
  "optBool v = (case v of Some x \<Rightarrow> JBool x | None \<Rightarrow> JUndefined)"

text \<open>The rewriting of a retained navigation URL against the base URL.\<close>

definition outputUrl :: "host \<Rightarrow> string option \<Rightarrow> string \<Rightarrow> string" where
  "outputUrl h baseURL url =
     (case nonEmpty baseURL of
        None \<Rightarrow> url
      | Some base \<Rightarrow>
          if url = [] then url
          else (case newURL h base of
                  None \<Rightarrow> url
                | Some baseUrl \<Rightarrow>
                    (case newURL h url of
                       None \<Rightarrow> url
                     | Some targetUrl \<Rightarrow>
                         if url_origin baseUrl = url_origin targetUrl
                         then url_pathname targetUrl @ url_search targetUrl @ url_hash targetUrl
                         else url)))"

definition inferBaseURL :: "host \<Rightarrow> emitter \<Rightarrow> string \<Rightarrow> emitter" where
  "inferBaseURL h s url =
     (if nonEmpty (meta_baseURL s) = None
      then s\<lparr>meta_baseURL := Some (case newURL h url of Some p \<Rightarrow> url_origin p | None \<Rightarrow> url)\<rparr>
      else s)"

text \<open>
  The \<^verbatim>\<open>switch\<close> of \<^verbatim>\<open>generateAction\<close> for every action but
  \<^verbatim>\<open>openPage\<close>/\<^verbatim>\<open>navigate\<close>: the fields of the step, in the order of assignment.
\<close>

definition stepFields ::
  "host \<Rightarrow> emitter \<Rightarrow> actionInContext \<Rightarrow> (string \<times> jsval) list \<Rightarrow>
   error + (string \<times> jsval) list" where
  "stepFields h s actionInContext selector =
     (let a = aic_action actionInContext; name = a_name a in
      if name = ''click'' then
        Inr ((if a_clickCount a = Some 2 then [(''action'', JStr ''dblclick'')]
              else (''action'', JStr ''click'')
                   # (if a_clickCount a \<noteq> Some 1 then [(''clickCount'', optNum (a_clickCount a))]
                      else []))
             @ [(''button'', optStr (a_button a)),
                (''modifiers'', decodeModifiers (a_modifiers a)),
                (''expectations'', expectFromSignals h a)])
      else if name = ''fill'' then
        (case maybeMaskValue h (getProp ''element'' (JObj selector)) (a_text a) of
           Inl e \<Rightarrow> Inl e
         | Inr t \<Rightarrow>
             Inr [(''action'', JStr ''fill''), (''text'', optStr t),
                  (''expectations'', expectFromSignals h a)])
      else if name = ''press'' then
        Inr [(''action'', JStr ''press''), (''key'', optStr (a_key a)),
             (''modifiers'', decodeModifiers (a_modifiers a)),
             (''expectations'', expectFromSignals h a)]
      else if name = ''check'' then
        Inr [(''action'', JStr ''check''), (''expectations'', expectFromSignals h a)]
      else if name = ''uncheck'' then
        Inr [(''action'', JStr ''uncheck''), (''expectations'', expectFromSignals h a)]
      else if name = ''assertText'' then
        Inr [(''action'', JStr ''assert.text''), (''text'', optStr (a_text a))]
      else if name = ''assertValue'' then
        Inr [(''action'', JStr ''assert.value''), (''value'', optStr (a_value a))]
      else if name = ''assertVisible'' then
        Inr ((''action'', JStr ''assert.visible'')
             # (if a_isNot a then [(''visible'', JBool False)] else []))
      else if name = ''assertChecked'' then
        Inr [(''action'', JStr ''assert.checked''), (''checked'', optBool (a_checked a))]
      else if name = ''closePage'' then
        Inr [(''action'', JStr ''closePage'')]
      else if name = ''select'' then
        Inr [(''action'', JStr ''select''),
             (''options'', JArr (map (\<lambda>opt. JObj [(''value'', JStr opt)]) (a_options a))),
             (''expectations'', expectFromSignals h a)]
      else
        Inr ((''action'', JStr (name @ '' (NOT SUPPORTED)''))
             # (if \<not> debugMode s
                then [(''debug'', JObj [(''action_in_context'', reflectAction h actionInContext)])]
                else [])))"

definition debugObject :: "host \<Rightarrow> actionInContext \<Rightarrow> jsval" where
  "debugObject h actionInContext =
     JObj ((''action_in_context'', reflectAction h actionInContext)
           # (case a_selector (aic_action actionInContext) of
                None \<Rightarrow> []
              | Some raw \<Rightarrow>
                  (case selectorDebug h raw of
                     Some ps \<Rightarrow> [(''parsed_selector'', ps)]
                   | None \<Rightarrow> [])))"

text \<open>
  The tail of \<^verbatim>\<open>generateAction\<close> behind the \<^verbatim>\<open>switch\<close>: the object that
  is handed to the serializer.
\<close>

definition stepEntry ::
  "host \<Rightarrow> emitter \<Rightarrow> actionInContext \<Rightarrow> (string \<times> jsval) list \<Rightarrow> (string \<times> jsval) list \<Rightarrow>
   (string \<times> jsval) list" where
  "stepEntry h s actionInContext selector step =
     (let step1 = AList.update ''selector'' (JObj selector) step;
          step2 = (if debugMode s then AList.update ''debug'' (debugObject h actionInContext) step1
                   else step1)
      in stripDefaults step2)"

text \<open>
  \<^verbatim>\<open>generateAction\<close> up to serialization: the header lines pushed to \<^verbatim>\<open>out\<close>,
  the stripped step (\<open>None\<close> when the function returns before building one) and the
  state of the emitter after the call.
\<close>

definition generateActionParts ::
  "host \<Rightarrow> nat \<Rightarrow> emitter \<Rightarrow> actionInContext \<Rightarrow>
   error + (string list \<times> (string \<times> jsval) list option \<times> emitter)" where
  "generateActionParts h fuel s actionInContext =
     (case buildStructuredSelector h fuel actionInContext of
        Inl e \<Rightarrow> Inl e
      | Inr selector \<Rightarrow>
          (let a = aic_action actionInContext in
           if a_name a = ''openPage'' \<or> a_name a = ''navigate'' then
             (if isTrivialUrl (a_url a) then Inr ([], None, s)
              else (let url = the (a_url a);
                        s1 = inferBaseURL h s url;
                        hdr = (if \<not> headerEmitted s1 then emitHeaderOnce h s1 else ([], s1));
                        s2 = snd hdr;
                        step = [(''action'', JStr ''navigate''),
                                (''url'', JStr (outputUrl h (meta_baseURL s2) url))]
                    in Inr (fst hdr, Some (stepEntry h s2 actionInContext selector step), s2)))
           else (case stepFields h s actionInContext selector of
                   Inl e \<Rightarrow> Inl e
                 | Inr step \<Rightarrow> Inr ([], Some (stepEntry h s actionInContext selector step), s))))"

text \<open>The array \<^verbatim>\<open>out\<close> at the end of \<^verbatim>\<open>generateAction\<close>, and the new state.\<close>

definition generateActionOut ::
  "host \<Rightarrow> nat \<Rightarrow> emitter \<Rightarrow> actionInContext \<Rightarrow> error + (string list \<times> emitter)" where
  "generateActionOut h fuel s actionInContext =
     (case generateActionParts h fuel s actionInContext of
        Inl e \<Rightarrow> Inl e
      | Inr (hdr, entry, s') \<Rightarrow>
          Inr (hdr @ (case entry of
                        Some step \<Rightarrow> [formatAsYamlListItem h (JObj step)]
                      | None \<Rightarrow> []),
               s'))"

definition generateAction ::
  "host \<Rightarrow> nat \<Rightarrow> emitter \<Rightarrow> actionInContext \<Rightarrow> error + (string \<times> emitter)" where
  "generateAction h fuel s actionInContext =
     (case generateActionOut h fuel s actionInContext of
        Inl e \<Rightarrow> Inl e
      | Inr (out, s') \<Rightarrow> Inr (joinWith [CHR 0x0A] out, s'))"

text \<open>
  A recording is a sequence of calls of \<^verbatim>\<open>generateAction\<close> on one emitter;
  \<open>generateActions\<close> collects the arrays \<^verbatim>\<open>out\<close> of the calls in order.
\<close>

fun generateActions ::
  "host \<Rightarrow> nat \<Rightarrow> emitter \<Rightarrow> actionInContext list \<Rightarrow> error + (string list \<times> emitter)" where
  "generateActions h fuel s [] = Inr ([], s)"
| "generateActions h fuel s (a # rest) =
     (case generateActionOut h fuel s a of
        Inl e \<Rightarrow> Inl e
      | Inr (out, s1) \<Rightarrow>
          (case generateActions h fuel s1 rest of
             Inl e \<Rightarrow> Inl e
           | Inr (outs, s2) \<Rightarrow> Inr (out @ outs, s2)))"

section \<open>The earlier implementation (\<^verbatim>\<open>codegen/yaml.ts\<close>)\<close>

text \<open>
  The file \<^verbatim>\<open>packages/playwright-core/src/server/codegen/yaml.ts\<close> holds an earlier
  version of the generator. Its \<^verbatim>\<open>parseTextSpec\<close> is the same function; its
  mapper knows fewer filter engines, has no ignore set, keeps the raw value of a role's
  \<^verbatim>\<open>name\<close> attribute and never recurses. The names of its functions carry the
  suffix \<open>_v1\<close>.
\<close>

definition FILTER_ENGINES_v1 :: "string list" where
  "FILTER_ENGINES_v1 = [''internal:has-text'', ''internal:has'', ''nth'']"

fun scanBack_v1 :: "selectorPart list \<Rightarrow> nat \<Rightarrow> int option" where
  "scanBack_v1 ps 0 = None"
| "scanBack_v1 ps (Suc i) =
     (if part_name (ps ! i) \<notin> set FILTER_ENGINES_v1 then Some (int i) else scanBack_v1 ps i)"

definition resolveBaseIndex_v1 :: "parsedSelector \<Rightarrow> int" where
  "resolveBaseIndex_v1 parsed =
     (if hasCapture parsed then the (capture parsed)
      else (case scanBack_v1 (parts parsed) (length (parts parsed)) of
              Some i \<Rightarrow> i
            | None \<Rightarrow> int (length (parts parsed)) - 1))"

definition roleAttribute_v1 ::
  "(string \<times> jsval) list \<Rightarrow> attributeSelectorPart \<Rightarrow> (string \<times> jsval) list" where
  "roleAttribute_v1 element attr =
     (if attr_name attr = ''name'' then AList.update ''name'' (attr_jsval attr) element
      else element)"

definition mapBasePart_v1 ::
  "host \<Rightarrow> parsedSelector \<Rightarrow> selectorPart \<Rightarrow> error + (string \<times> jsval) list" where
  "mapBasePart_v1 h parsed basePart =
     (let name = part_name basePart in
      if name = ''internal:testid'' then
        (case sel_attributes (parseAttributeSelector h (part_body basePart)) of
           [] \<Rightarrow> Inl TypeError
         | first # _ \<Rightarrow> Inr [(''testId'', attr_jsval first)])
      else if name = ''internal:role'' then
        (let attrSelector = parseAttributeSelector h (part_body basePart) in
         Inr (foldl roleAttribute_v1 [(''role'', JStr (sel_name attrSelector))]
                (sel_attributes attrSelector)))
      else if name = ''internal:text'' then
        (case textSpecOfBody h (part_body basePart) of
           Inl e \<Rightarrow> Inl e
         | Inr m \<Rightarrow> Inr [(''text'', m)])
      else if name = ''css'' \<or> name = ''css:light'' then
        Inr [(''css'', JStr (part_source basePart))]
      else if name = ''xpath'' then
        Inr [(''xpath'', JStr (part_source basePart))]
      else if name = ''internal:label'' then
        (case textSpecOfBody h (part_body basePart) of
           Inl e \<Rightarrow> Inl e
         | Inr m \<Rightarrow> Inr [(''label'', m)])
      else if name = ''internal:placeholder'' then
        (case textSpecOfBody h (part_body basePart) of
           Inl e \<Rightarrow> Inl e
         | Inr m \<Rightarrow> Inr [(''placeholder'', m)])
      else Inr [(''css'', JStr (stringifySelector h parsed))])"

definition applyFilterPart_v1 ::
  "host \<Rightarrow> (string \<times> jsval) list option \<times> int option \<Rightarrow> selectorPart \<Rightarrow>
   error + ((string \<times> jsval) list option \<times> int option)" where
  "applyFilterPart_v1 h acc part =
     (let name = part_name part; filters = fst acc; nthv = snd acc in
      if name = ''internal:has-text'' then
        (case textSpecOfBody h (part_body part) of
           Inl e \<Rightarrow> Inl e
         | Inr m \<Rightarrow> Inr (setFilter ''hasText'' m filters, nthv))
      else if name = ''nth'' then
        (case nthOfBody h (part_body part) of
           Some n \<Rightarrow> Inr (filters, Some n)
         | None \<Rightarrow> Inr acc)
      else Inr acc)"

fun applyFilterParts_v1 ::
  "host \<Rightarrow> (string \<times> jsval) list option \<times> int option \<Rightarrow> selectorPart list \<Rightarrow>
   error + ((string \<times> jsval) list option \<times> int option)" where
  "applyFilterParts_v1 h acc [] = Inr acc"
| "applyFilterParts_v1 h acc (part # rest) =
     (case applyFilterPart_v1 h acc part of
        Inl e \<Rightarrow> Inl e
      | Inr acc' \<Rightarrow> applyFilterParts_v1 h acc' rest)"

definition elementFromParsedSelector_v1 ::
  "host \<Rightarrow> string option \<Rightarrow> error + parsedSelectorResult option" where
  "elementFromParsedSelector_v1 h raw =
     (case raw of
        None \<Rightarrow> Inr None
      | Some r \<Rightarrow>
          if r = [] then Inr None
          else (case parseSelector h r of
                  None \<Rightarrow> Inr None
                | Some parsed \<Rightarrow>
                    (let baseIndex = resolveBaseIndex_v1 parsed in
                     case partAt parsed baseIndex of
                       None \<Rightarrow> Inr (Some (cssFallback r))
                     | Some basePart \<Rightarrow>
                         (case mapBasePart_v1 h parsed basePart of
                            Inl e \<Rightarrow> Inl e
                          | Inr element \<Rightarrow>
                              (case applyFilterParts_v1 h (None, None)
                                      (drop (nat baseIndex + 1) (parts parsed)) of
                                 Inl e \<Rightarrow> Inl e
                               | Inr (filters, nthv) \<Rightarrow>
                                   Inr (Some \<lparr>res_element = JObj element,
                                              res_filters = filters,
                                              res_nth = nthv\<rparr>))))))"

definition generateHeader_v1 ::
  "host \<Rightarrow> string option \<Rightarrow> string option \<Rightarrow> emitter \<Rightarrow> error + (string \<times> emitter)" where
  "generateHeader_v1 h env baseURL s =
     (let dbg = (debugMode s \<or> nonEmpty env \<noteq> None);
          seed = nonEmpty baseURL
      in case (case seed of
                 Some u \<Rightarrow> (case newURL h u of Some p \<Rightarrow> Inr (url_hostname p) | None \<Rightarrow> Inl TypeError)
               | None \<Rightarrow> Inr ''Recorded Scenario'') of
           Inl e \<Rightarrow> Inl e
         | Inr name \<Rightarrow>
             Inr (''# Generated by Genfest'',
                  s\<lparr>debugMode := dbg, seedUrl := seed, meta_version := ''0.1'', meta_name := name,
                    meta_baseURL := seed, headerEmitted := False\<rparr>))"

definition generateFooter_v1 :: "string option \<Rightarrow> string" where
  "generateFooter_v1 saveStorage = []"

definition frameRefFromString_v1 :: "string \<Rightarrow> jsval" where
  "frameRefFromString_v1 sel =
     (let pre = ''frame[name='' @ [CHR 0x22]; suf = [CHR 0x22, CHR '']''];
          mid = take (length sel - length pre - length suf) (drop (length pre) sel)
      in if startsWith sel pre \<and> endsWith sel suf \<and> length pre + length suf < length sel
            \<and> \<not> list_ex isLineTerminator mid
         then JObj [(''name'', JStr mid)]
         else JObj [(''selector'', JStr sel)])"

definition selectorFrame_v1 :: "frameDescription \<Rightarrow> (string \<times> jsval) list" where
  "selectorFrame_v1 frame =
     (let s1 = (if pageAlias frame \<noteq> [] then [(''page'', JStr (pageAlias frame))] else [])
      in if framePath frame \<noteq> []
         then AList.update ''framePath'' (JArr (map frameRefFromString_v1 (framePath frame))) s1
         else s1)"

text \<open>
  \<^verbatim>\<open>isActionWithSelector\<close> of the earlier version asks for a truthy
  \<^verbatim>\<open>selector\<close>: a non-empty string.
\<close>

definition truthySelector :: "action \<Rightarrow> string option" where
  "truthySelector a =
     (case a_selector a of
        Some (Some r) \<Rightarrow> if r = [] then None else Some r
      | _ \<Rightarrow> None)"

definition buildStructuredSelector_v1 ::
  "host \<Rightarrow> actionInContext \<Rightarrow> error + (string \<times> jsval) list" where
  "buildStructuredSelector_v1 h actionInContext =
     (let selector = selectorFrame_v1 (aic_frame actionInContext) in
      case truthySelector (aic_action actionInContext) of
        None \<Rightarrow> Inr selector
      | Some raw \<Rightarrow>
          (case elementFromParsedSelector_v1 h (Some raw) of
             Inl e \<Rightarrow> Inl e
           | Inr None \<Rightarrow> Inr (AList.update ''element'' (JObj [(''css'', JStr raw)]) selector)
           | Inr (Some mapped) \<Rightarrow>
               (let s1 = AList.update ''element'' (res_element mapped) selector;
                    s2 = (case res_filters mapped of
                            Some f \<Rightarrow> AList.update ''filters'' (JObj f) s1
                          | None \<Rightarrow> s1)
                in Inr (case res_nth mapped of
                          Some n \<Rightarrow> AList.update ''nth'' (JNum (of_int n)) s2
                        | None \<Rightarrow> s2))))"

text \<open>
  \<^verbatim>\<open>matchText\<close> of the earlier version reads \<^verbatim>\<open>t.value\<close> and
  \<^verbatim>\<open>t.regex\<close>; reading a property of \<^verbatim>\<open>undefined\<close> or \<^verbatim>\<open>null\<close> throws.
\<close>

definition matchText_v1 :: "host \<Rightarrow> jsval \<Rightarrow> error + bool" where
  "matchText_v1 h t =
     (case t of
        JStr s \<Rightarrow> Inr (secretPattern s)
      | JUndefined \<Rightarrow> Inl TypeError
      | JNull \<Rightarrow> Inl TypeError
      | _ \<Rightarrow>
          Inr ((truthy (getProp ''value'' t) \<and> secretPattern (jsToString h (getProp ''value'' t)))
               \<or> (truthy (getProp ''regex'' t) \<and> secretPattern (jsToString h (getProp ''regex'' t)))))"

definition maybeMaskValue_v1 :: "host \<Rightarrow> jsval \<Rightarrow> string option \<Rightarrow> error + string option" where
  "maybeMaskValue_v1 h el txt =
     (if txt = None then Inr txt
      else if \<not> isObject el then Inl TypeError
      else if hasProp ''testId'' el \<and> secretPattern (jsToString h (getProp ''testId'' el))
        then Inr (Some maskToken)
      else (case (if hasProp ''label'' el then matchText_v1 h (getProp ''label'' el)
                  else Inr False) of
              Inl e \<Rightarrow> Inl e
            | Inr True \<Rightarrow> Inr (Some maskToken)
            | Inr False \<Rightarrow>
      (case (if hasProp ''placeholder'' el then matchText_v1 h (getProp ''placeholder'' el)
             else Inr False) of
              Inl e \<Rightarrow> Inl e
            | Inr True \<Rightarrow> Inr (Some maskToken)
            | Inr False \<Rightarrow>
      if hasProp ''role'' el
         \<and> secretPattern (jsToString h (nullishOr (getProp ''name'' el) (JStr [])))
        then Inr (Some maskToken)
      else (case (if hasProp ''text'' el then matchText_v1 h (getProp ''text'' el)
                  else Inr False) of
              Inl e \<Rightarrow> Inl e
            | Inr True \<Rightarrow> Inr (Some maskToken)
            | Inr False \<Rightarrow>
      if hasProp ''css'' el \<and> secretPattern (jsToString h (getProp ''css'' el))
        then Inr (Some maskToken)
      else if hasProp ''xpath'' el \<and> secretPattern (jsToString h (getProp ''xpath'' el))
        then Inr (Some maskToken)
      else Inr txt))))"

definition selectorDebug_v1 :: "host \<Rightarrow> string \<Rightarrow> jsval option" where
  "selectorDebug_v1 h raw =
     (case parseSelector h raw of
        None \<Rightarrow> None
      | Some parsed \<Rightarrow>
          (let baseIndex = resolveBaseIndex_v1 parsed in
           case partAt parsed baseIndex of
             None \<Rightarrow>
               Some (JObj [(''parsed'', reflectParsed h parsed),
                           (''baseIndex'', JNum (of_int baseIndex)),
                           (''basePart'', JUndefined)])
           | Some basePart \<Rightarrow>
               (let warnings =
                      (if part_name basePart \<in> set [''internal:testid'', ''internal:role'',
                            ''internal:text'', ''css'', ''css:light'', ''xpath'', ''internal:label'',
                            ''internal:placeholder'']
                       then [] else [''unhandled engine '' @ part_name basePart])
                      @ map (\<lambda>p. ''unhandled parsed attribute part '' @ part_name p)
                          (filter (\<lambda>p. part_name p \<notin> set [''internal:has-text'', ''nth''])
                             (drop (nat baseIndex + 1) (parts parsed)))
                in Some (JObj ([(''parsed'', reflectParsed h parsed),
                                (''baseIndex'', JNum (of_int baseIndex)),
                                (''basePart'', reflectPart h basePart)]
                               @ (if warnings = [] then []
                                  else [(''warnings'', JArr (map JStr warnings))]))))))"

definition debugObject_v1 :: "host \<Rightarrow> actionInContext \<Rightarrow> jsval" where
  "debugObject_v1 h actionInContext =
     JObj ((''action_in_context'', reflectAction h actionInContext)
           # (case truthySelector (aic_action actionInContext) of
                None \<Rightarrow> []
              | Some raw \<Rightarrow>
                  (case selectorDebug_v1 h raw of
                     Some ps \<Rightarrow> [(''parsed_selector'', ps)]
                   | None \<Rightarrow> [])))"

definition stepFields_v1 ::
  "host \<Rightarrow> emitter \<Rightarrow> actionInContext \<Rightarrow> (string \<times> jsval) list \<Rightarrow>
   error + (string \<times> jsval) list" where
  "stepFields_v1 h s actionInContext selector =
     (let a = aic_action actionInContext; name = a_name a in
      if name = ''click'' then
        Inr ([(''action'', JStr (if a_clickCount a = Some 2 then ''dblclick'' else ''click'')),
              (''button'', optStr (a_button a)),
              (''modifiers'', optNum (a_modifiers a))]
             @ (if a_clickCount a \<noteq> Some 1 then [(''clickCount'', optNum (a_clickCount a))] else [])
             @ [(''expectations'', expectFromSignals h a)])
      else if name = ''fill'' then
        (case maybeMaskValue_v1 h (getProp ''element'' (JObj selector)) (a_text a) of
           Inl e \<Rightarrow> Inl e
         | Inr t \<Rightarrow>
             Inr [(''action'', JStr ''fill''), (''text'', optStr t),
                  (''expectations'', expectFromSignals h a)])
      else if name = ''press'' then
        Inr [(''action'', JStr ''press''), (''key'', optStr (a_key a)),
             (''modifiers'', optNum (a_modifiers a)),
             (''expectations'', expectFromSignals h a)]
      else if name = ''check'' then
        Inr [(''action'', JStr ''check''), (''expectations'', expectFromSignals h a)]
      else if name = ''uncheck'' then
        Inr [(''action'', JStr ''uncheck''), (''expectations'', expectFromSignals h a)]
      else if name = ''assertText'' then
        Inr [(''action'', JStr ''assert.text''), (''text'', optStr (a_text a))]
      else if name = ''assertValue'' then
        Inr [(''action'', JStr ''assert.value''), (''value'', optStr (a_value a))]
      else if name = ''assertVisible'' then
        Inr [(''action'', JStr ''assert.visible'')]
      else if name = ''assertChecked'' then
        Inr [(''action'', JStr ''assertChecked''), (''checked'', optBool (a_checked a))]
      else if name = ''closePage'' then
        Inr [(''action'', JStr ''closePage'')]
      else
        Inr ((''action'', JStr (name @ '' (NOT SUPPORTED)''))
             # (if \<not> debugMode s
                then [(''debug'', JObj [(''action_in_context'', reflectAction h actionInContext)])]
                else [])))"

definition stepEntry_v1 ::
  "host \<Rightarrow> emitter \<Rightarrow> actionInContext \<Rightarrow> (string \<times> jsval) list \<Rightarrow> (string \<times> jsval) list \<Rightarrow>
   (string \<times> jsval) list" where
  "stepEntry_v1 h s actionInContext selector step =
     (let step1 = AList.update ''selector'' (JObj selector) step;
          step2 = (if debugMode s then AList.update ''debug'' (debugObject_v1 h actionInContext) step1
                   else step1)
      in stripDefaults step2)"

text \<open>
  The two versions of \<^verbatim>\<open>stripEmpty\<close> differ on a \<^verbatim>\<open>null\<close> inside an array
  only (the earlier one throws there). They are applied to \<^verbatim>\<open>_meta\<close> alone, whose
  three fields are strings or absent, so \<open>stripEmpty\<close> serves both versions.
\<close>

definition emitHeaderOnce_v1 :: "host \<Rightarrow> emitter \<Rightarrow> string list \<times> emitter" where
  "emitHeaderOnce_v1 h s =
     (if headerEmitted s then ([], s)
      else ([dropTrailingNewline
               (normalizeNewlines (yamlDump_v1 h (JObj (stripEmpty (metaObject s))))),
             ''steps:'', []],
            s\<lparr>headerEmitted := True\<rparr>))"

definition formatAsYamlListItem_v1 :: "host \<Rightarrow> jsval \<Rightarrow> string" where
  "formatAsYamlListItem_v1 h entry =
     (let dumped = normalizeNewlines (yamlDump_v1 h entry);
          lines = splitOn (CHR 0x0A) (dropTrailingNewline dumped)
      in joinWith [CHR 0x0A]
           (map (\<lambda>(i, line). if i = 0 then ''  - '' @ line else ''    '' @ line)
              (zip [0 ..< length lines] lines))
         @ [CHR 0x0A])"

definition generateActionParts_v1 ::
  "host \<Rightarrow> emitter \<Rightarrow> actionInContext \<Rightarrow>
   error + (string list \<times> (string \<times> jsval) list option \<times> emitter)" where
  "generateActionParts_v1 h s actionInContext =
     (case buildStructuredSelector_v1 h actionInContext of
        Inl e \<Rightarrow> Inl e
      | Inr selector \<Rightarrow>
          (let a = aic_action actionInContext in
           if a_name a = ''openPage'' \<or> a_name a = ''navigate'' then
             (if isTrivialUrl (a_url a) then Inr ([], None, s)
              else (let url = the (a_url a);
                        s1 = (if nonEmpty (meta_baseURL s) = None then s\<lparr>meta_baseURL := Some url\<rparr>
                              else s);
                        hdr = (if \<not> headerEmitted s1 then emitHeaderOnce_v1 h s1 else ([], s1));
                        s2 = snd hdr;
                        step = [(''action'', JStr ''navigate''), (''url'', JStr url)]
                    in Inr (fst hdr, Some (stepEntry_v1 h s2 actionInContext selector step), s2)))
           else (case stepFields_v1 h s actionInContext selector of
                   Inl e \<Rightarrow> Inl e
                 | Inr step \<Rightarrow> Inr ([], Some (stepEntry_v1 h s actionInContext selector step), s))))"

definition generateAction_v1 ::
  "host \<Rightarrow> emitter \<Rightarrow> actionInContext \<Rightarrow> error + (string \<times> emitter)" where
  "generateAction_v1 h s actionInContext =
     (case generateActionParts_v1 h s actionInContext of
        Inl e \<Rightarrow> Inl e
      | Inr (hdr, entry, s') \<Rightarrow>
          Inr (joinWith [CHR 0x0A]
                 (hdr @ (case entry of
                           Some step \<Rightarrow> [formatAsYamlListItem_v1 h (JObj step)]
                         | None \<Rightarrow> [])),
               s'))"

text \<open>The engines that the two versions of the mapper treat alike.\<close>

definition COMMON_ENGINES :: "string list" where
  "COMMON_ENGINES =
     [''internal:testid'', ''internal:text'', ''internal:label'', ''internal:placeholder'',
      ''css'', ''css:light'', ''xpath'', ''internal:has-text'', ''nth'']"

section \<open>A concrete platform for the examples\<close>

text \<open>
  The theorems below hold for every value of the collaborators. To run the code on the
  examples of the specification, \<open>recorder\<close> fixes them on the inputs the examples
  use: \<^verbatim>\<open>JSON.parse\<close> on string literals with the simple escapes, and the results
  of the selector grammar and of \<^verbatim>\<open>new URL\<close> on the listed strings.
\<close>

definition jsonEscape :: "char \<Rightarrow> char option" where
  "jsonEscape e =
     map_of [(CHR 0x22, CHR 0x22), (CHR 0x5C, CHR 0x5C), (CHR ''/'', CHR ''/''),
             (CHR ''b'', CHR 0x08), (CHR ''f'', CHR 0x0C), (CHR ''n'', CHR 0x0A),
             (CHR ''r'', CHR 0x0D), (CHR ''t'', CHR 0x09)] e"

fun jsonStringBody :: "string \<Rightarrow> string option" where
  "jsonStringBody [] = None"
| "jsonStringBody [c] = (if c = CHR 0x22 then Some [] else None)"
| "jsonStringBody (c # d # cs) =
     (if c = CHR 0x22 then None
      else if c = CHR 0x5C then
        (case jsonEscape d of
           Some x \<Rightarrow> map_option ((#) x) (jsonStringBody cs)
         | None \<Rightarrow> None)
      else if (of_char c :: nat) < 32 then None
      else map_option ((#) c) (jsonStringBody (d # cs)))"

definition jsonStringLiteral :: "string \<Rightarrow> jsval option" where
  "jsonStringLiteral s =
     (case s of
        [] \<Rightarrow> None
      | c # cs \<Rightarrow> if c = CHR 0x22 then map_option JStr (jsonStringBody cs) else None)"

definition cssPart :: "string \<Rightarrow> selectorPart" where
  "cssPart src = SelectorPart ''css'' BodyCss src"

definition enginePart :: "string \<Rightarrow> string \<Rightarrow> selectorPart" where
  "enginePart name body = SelectorPart name (BodyString body) body"

definition chain :: "selectorPart list \<Rightarrow> parsedSelector" where
  "chain ps = ParsedSelector ps None"

definition exampleChain :: parsedSelector where
  \<open>exampleChain =
     chain [cssPart ''.btn'', enginePart ''internal:has-text'' ''"Go"'', enginePart ''nth'' ''2'']\<close>

definition recordedSelectors :: "(string \<times> parsedSelector) list" where
  \<open>recordedSelectors =
     [(''css=.btn >> internal:has-text="Go" >> nth=2'', exampleChain),
      (''css=.btn'', chain [cssPart ''.btn'']),
      (''css=.btn >> visible=true'', chain [cssPart ''.btn'', enginePart ''visible'' ''true'']),
      (''css=.btn >> visible=FALSE'', chain [cssPart ''.btn'', enginePart ''visible'' ''FALSE'']),
      (''css=.btn >> visible=false'', chain [cssPart ''.btn'', enginePart ''visible'' ''false'']),
      (''internal:testid=foo'', chain [enginePart ''internal:testid'' ''foo'']),
      (''internal:testid=[data-testid="login-password"s]'',
         chain [enginePart ''internal:testid'' ''[data-testid="login-password"s]'']),
      (''internal:testid=[data-testid="username"s]'',
         chain [enginePart ''internal:testid'' ''[data-testid="username"s]'']),
      (''internal:role=button[name="Submit"i]'',
         chain [enginePart ''internal:role'' ''button[name="Submit"i]'']),
      (''internal:role=textbox[name="Password"s]'',
         chain [enginePart ''internal:role'' ''textbox[name="Password"s]'']),
      (''internal:label="Password"s'', chain [enginePart ''internal:label'' ''"Password"s''])]\<close>

definition stringAttribute :: "string \<Rightarrow> string \<Rightarrow> bool \<Rightarrow> attributeSelectorPart" where
  "stringAttribute name v cs =
     \<lparr>attr_name = name, attr_jsval = JStr v, attr_caseSensitive = cs, attr_op = ''=''\<rparr>"

definition recordedAttributes :: "(string \<times> attributeSelector) list" where
  \<open>recordedAttributes =
     [(''foo'', \<lparr>sel_name = ''foo'', sel_attributes = []\<rparr>),
      (''[data-testid="login-password"s]'',
         \<lparr>sel_name = [],
          sel_attributes = [stringAttribute ''data-testid'' ''login-password'' True]\<rparr>),
      (''[data-testid="username"s]'',
         \<lparr>sel_name = [],
          sel_attributes = [stringAttribute ''data-testid'' ''username'' True]\<rparr>),
      (''button[name="Submit"i]'',
         \<lparr>sel_name = ''button'', sel_attributes = [stringAttribute ''name'' ''Submit'' False]\<rparr>),
      (''textbox[name="Password"s]'',
         \<lparr>sel_name = ''textbox'', sel_attributes = [stringAttribute ''name'' ''Password'' True]\<rparr>)]\<close>

definition recordedURLs :: "(string \<times> parsedURL) list" where
  "recordedURLs =
     [(''https://example.com'',
         \<lparr>url_origin = ''https://example.com'', url_protocol = ''https:'',
          url_hostname = ''example.com'', url_pathname = ''/'', url_search = [], url_hash = []\<rparr>),
      (''https://example.com/a/b?x=1'',
         \<lparr>url_origin = ''https://example.com'', url_protocol = ''https:'',
          url_hostname = ''example.com'', url_pathname = ''/a/b'', url_search = ''?x=1'',
          url_hash = []\<rparr>),
      (''https://other.com/'',
         \<lparr>url_origin = ''https://other.com'', url_protocol = ''https:'',
          url_hostname = ''other.com'', url_pathname = ''/'', url_search = [], url_hash = []\<rparr>),
      (''file:///a.html'',
         \<lparr>url_origin = ''null'', url_protocol = ''file:'', url_hostname = [],
          url_pathname = ''/a.html'', url_search = [], url_hash = []\<rparr>)]"

text \<open>
  \<^verbatim>\<open>stringifySelector\<close> on chains without capture: the parts joined by
  \<^verbatim>\<open>>>\<close>, the engine name left out for a \<^verbatim>\<open>css\<close> part.
\<close>

definition stringifyChain :: "parsedSelector \<Rightarrow> string" where
  "stringifyChain p =
     joinWith '' >> ''
       (map (\<lambda>part. if part_name part = ''css'' then part_source part
                     else part_name part @ ''='' @ part_source part)
          (parts p))"

definition mainFrame :: frameDescription where
  "mainFrame = \<lparr>pageAlias = ''page'', framePath = []\<rparr>"

definition plainAction :: "string \<Rightarrow> action" where
  "plainAction name =
     \<lparr>a_name = name, a_selector = None, a_url = None, a_text = None, a_key = None,
      a_value = None, a_checked = None, a_isNot = False, a_options = [], a_button = None,
      a_modifiers = None, a_clickCount = None, a_signals = []\<rparr>"

definition navigateTo :: "string \<Rightarrow> actionInContext" where
  "navigateTo url =
     \<lparr>aic_frame = mainFrame, aic_action = (plainAction ''navigate'')\<lparr>a_url := Some url\<rparr>\<rparr>"

definition clickOn :: "string \<Rightarrow> actionInContext" where
  "clickOn sel =
     \<lparr>aic_frame = mainFrame,
      aic_action = (plainAction ''click'')
        \<lparr>a_selector := Some (Some sel), a_button := Some ''left'', a_modifiers := Some 0,
         a_clickCount := Some 1\<rparr>\<rparr>"

definition fillIn :: "string \<Rightarrow> string \<Rightarrow> actionInContext" where
  "fillIn sel txt =
     \<lparr>aic_frame = mainFrame,
      aic_action = (plainAction ''fill'')\<lparr>a_selector := Some (Some sel), a_text := Some txt\<rparr>\<rparr>"

definition assertCheckedOn :: "string \<Rightarrow> actionInContext" where
  "assertCheckedOn sel =
     \<lparr>aic_frame = mainFrame,
      aic_action = (plainAction ''assertChecked'')
        \<lparr>a_selector := Some (Some sel), a_checked := Some True\<rparr>\<rparr>"

text \<open>A one-line stand-in for the serializer: it prints the action of a step, or the name of a header.\<close>

definition oneLineDump :: "jsval \<Rightarrow> string" where
  "oneLineDump v =
     (case getProp ''action'' v of
        JStr a \<Rightarrow> ''action: '' @ a
      | _ \<Rightarrow> (case getProp ''name'' v of JStr n \<Rightarrow> ''name: '' @ n | _ \<Rightarrow> []))"

text \<open>
  The double nearest to an integer (ties to the even significand of 53 bits);
  \<open>None\<close> beyond the range of the doubles.
\<close>

function bitLength :: "int \<Rightarrow> nat" where
  "bitLength n = (if n \<le> 0 then 0 else Suc (bitLength (n div 2)))"
  by pat_completeness auto
termination
  by (relation "measure nat") auto

definition nearestMagnitude :: "int \<Rightarrow> int option" where
  "nearestMagnitude n =
     (if bitLength n \<le> 53 then Some n
      else (let k = bitLength n - 53;
                q = n div 2 ^ k;
                r = n mod 2 ^ k;
                half = 2 ^ (k - 1);
                q' = (if half < r \<or> (r = half \<and> odd q) then q + 1 else q);
                d = q' * 2 ^ k
            in if d < 2 ^ 1024 then Some d else None))"

definition nearestDouble :: "int \<Rightarrow> int option" where
  "nearestDouble n =
     (if n < 0 then map_option uminus (nearestMagnitude (- n)) else nearestMagnitude n)"

definition recorder :: host where
  "recorder =
     \<lparr>reflectAction = (\<lambda>a. JStr (a_name (aic_action a))),
      jsonParse = jsonStringLiteral,
      newRegExp = (\<lambda>body flags. None),
      parseSelector = map_of recordedSelectors,
      parseAttributeSelector =
        (\<lambda>b. case b of
                BodyString s \<Rightarrow>
                  (case map_of recordedAttributes s of
                     Some a \<Rightarrow> a
                   | None \<Rightarrow> \<lparr>sel_name = s, sel_attributes = []\<rparr>)
              | _ \<Rightarrow> \<lparr>sel_name = [], sel_attributes = []\<rparr>),
      stringifySelector = stringifyChain,
      newURL = map_of recordedURLs,
      toNumber = (\<lambda>v. None),
      numberOfInteger = nearestDouble,
      numberToString = (\<lambda>n. []),
      yamlDump = oneLineDump,
      yamlDump_v1 = oneLineDump,
      reflectParsed = (\<lambda>p. JStr (stringifyChain p)),
      reflectPart = (\<lambda>p. JStr (part_source p))\<rparr>"

section \<open>Default stripping is idempotent\<close>

text \<open>
  Claim C9. Stripping a step twice gives what stripping it once gives: after one pass
  has removed the \<^verbatim>\<open>null\<close> and absent fields, a zero \<^verbatim>\<open>modifiers\<close> mask, an
  empty \<^verbatim>\<open>framePath\<close> and the nested objects that became empty, a second pass
  removes nothing.
\<close>

theorem stripDefaults_idempotent: "stripDefaults (stripDefaults obj) = stripDefaults obj"
  by (induction obj rule: stripDefaults.induct) (auto split: jsval.splits simp: Let_def)

section \<open>The TextMatcher parser on quoted strings with a suffix\<close>

lemma endsWith_snoc: "endsWith (q @ [c]) [d] = (c = d)"
  by (simp add: endsWith_def)

lemma endsWith_snoc2: "endsWith (q @ [b, c]) [d, e] = (b = d \<and> c = e)"
  by (simp add: endsWith_def)

lemma parseRegexLiteral_no_slash: "c \<noteq> CHR ''/'' \<Longrightarrow> parseRegexLiteral h (c # cs) = None"
  by (simp add: parseRegexLiteral_def matchRegexLiteral_def Let_def)

lemma parseQuotedSuffix_quoted:
  assumes "sfx = CHR ''s'' \<or> sfx = CHR ''i''"
  shows "parseQuotedSuffix h (CHR 0x22 # q @ [CHR 0x22, sfx]) =
           (case parseJsonString h (CHR 0x22 # q @ [CHR 0x22]) of
              Some decoded \<Rightarrow>
                Some (if sfx = CHR ''s'' then textExact decoded
                      else textPattern (escapeRegex decoded) ''i'')
            | None \<Rightarrow> None)"
proof -
  have 1: "endsWith (CHR 0x22 # q @ [CHR 0x22, sfx]) [CHR 0x22, CHR ''s''] = (sfx = CHR ''s'')"
    using endsWith_snoc2[of "CHR 0x22 # q"] by simp
  have 2: "endsWith (CHR 0x22 # q @ [CHR 0x22, sfx]) [CHR 0x22, CHR ''i''] = (sfx = CHR ''i'')"
    using endsWith_snoc2[of "CHR 0x22 # q"] by simp
  have 3: "butlast (CHR 0x22 # q @ [CHR 0x22, sfx]) = CHR 0x22 # q @ [CHR 0x22]"
    by (simp add: butlast_append)
  have 4: "endsWith (CHR 0x22 # q @ [CHR 0x22]) [CHR 0x22]"
    using endsWith_snoc[of "CHR 0x22 # q"] by simp
  show ?thesis
    unfolding parseQuotedSuffix_def using assms 1 2 3 4 by (auto simp: Let_def startsWith_def)
qed

text \<open>
  A JSON-quoted string followed by \<^verbatim>\<open>s\<close> is an exact, case-sensitive matcher on the
  decoded text.
\<close>

lemma parseTextSpec_suffix_s:
  assumes "parseJsonString h (CHR 0x22 # q @ [CHR 0x22]) = Some decoded"
  shows "parseTextSpec h (Some (CHR 0x22 # q @ [CHR 0x22, CHR ''s''])) = textExact decoded"
  using assms parseQuotedSuffix_quoted[of "CHR ''s''" h q]
  by (simp add: parseTextSpec_def parseRegexLiteral_no_slash)

text \<open>
  Followed by \<^verbatim>\<open>i\<close> it is a pattern with the flag \<^verbatim>\<open>i\<close>: the decoded text with
  the special characters escaped, and nothing around it.
\<close>

lemma parseTextSpec_suffix_i:
  assumes "parseJsonString h (CHR 0x22 # q @ [CHR 0x22]) = Some decoded"
  shows "parseTextSpec h (Some (CHR 0x22 # q @ [CHR 0x22, CHR ''i''])) =
           textPattern (escapeRegex decoded) ''i''"
  using assms parseQuotedSuffix_quoted[of "CHR ''i''" h q]
  by (simp add: parseTextSpec_def parseRegexLiteral_no_slash)

text \<open>
  A quoted string that does not decode falls through to the last rule: the input is
  kept as plain text, and nothing is thrown.
\<close>

lemma parseTextSpec_suffix_malformed:
  assumes "parseJsonString h (CHR 0x22 # q @ [CHR 0x22]) = None"
    and "sfx = CHR ''s'' \<or> sfx = CHR ''i''"
  shows "parseTextSpec h (Some (CHR 0x22 # q @ [CHR 0x22, sfx])) =
           JStr (CHR 0x22 # q @ [CHR 0x22, sfx])"
proof -
  have "\<not> endsWith (CHR 0x22 # q @ [CHR 0x22, sfx]) [CHR 0x22]"
    using assms(2) endsWith_snoc[of "CHR 0x22 # q @ [CHR 0x22]" sfx "CHR 0x22"] by auto
  then have "parsePlainQuoted h (CHR 0x22 # q @ [CHR 0x22, sfx]) = None"
    by (simp add: parsePlainQuoted_def)
  then show ?thesis
    using assms parseQuotedSuffix_quoted[of sfx h q]
    by (simp add: parseTextSpec_def parseRegexLiteral_no_slash)
qed

text \<open>
  Claim C4. The source announces the case-insensitive form as
  \<^verbatim>\<open>exact, case-insensitive -> compile to ^text$ with /i\<close>, and the claim asks for a
  pattern equivalent to an anchored, exact match. On the input \<^verbatim>\<open>"Go"i\<close> the
  parser returns the pattern \<^verbatim>\<open>Go\<close> with the flag \<^verbatim>\<open>i\<close>: the escaped text
  without the anchors, which as a regular expression is also found inside
  \<^verbatim>\<open>Going\<close>.
\<close>

theorem parseTextSpec_suffix_i_unanchored:
  \<open>parseTextSpec recorder (Some ''"Go"i'') = JObj [(''pattern'', JStr ''Go''), (''flags'', JStr ''i'')]
   \<and> parseTextSpec recorder (Some ''"Go"i'') \<noteq> textPattern ''^Go$'' ''i''\<close>
  by code_simp

section \<open>Base-index resolution\<close>

lemma scanBack_last:
  assumes "i < n" and "n \<le> length ps"
    and "part_name (ps ! i) \<noteq> []"
    and "part_name (ps ! i) \<notin> set FILTER_ENGINES \<union> set IGNORE_ENGINES"
    and "\<forall>j. i < j \<and> j < n \<longrightarrow> part_name (ps ! j) \<in> set FILTER_ENGINES \<union> set IGNORE_ENGINES"
  shows "scanBack ps n = int i"
  using assms
proof (induction n)
  case 0
  then show ?case by simp
next
  case (Suc m)
  show ?case
  proof (cases "i = m")
    case True
    with Suc.prems show ?thesis by (simp add: Let_def)
  next
    case False
    with Suc.prems have im: "i < m" by simp
    from Suc.prems im have "part_name (ps ! m) \<in> set FILTER_ENGINES \<union> set IGNORE_ENGINES" by simp
    moreover have "scanBack ps m = int i" using Suc.IH Suc.prems im by simp
    ultimately show ?thesis by (auto simp: Let_def)
  qed
qed

lemma resolveBaseIndex_last:
  assumes "\<not> hasCapture parsed"
    and "i < length (parts parsed)"
    and "part_name (parts parsed ! i) \<noteq> []"
    and "part_name (parts parsed ! i) \<notin> set FILTER_ENGINES \<union> set IGNORE_ENGINES"
    and "\<forall>j. i < j \<and> j < length (parts parsed) \<longrightarrow>
           part_name (parts parsed ! j) \<in> set FILTER_ENGINES \<union> set IGNORE_ENGINES"
  shows "resolveBaseIndex parsed = int i"
proof -
  have "scanBack (parts parsed) (length (parts parsed)) = int i"
    using scanBack_last[of i "length (parts parsed)" "parts parsed"] assms by simp
  then have "initialBaseIndex parsed = int i"
    using assms(1) by (simp add: initialBaseIndex_def Let_def)
  then show ?thesis
    using assms(2,4) by (simp add: resolveBaseIndex_def nat_add_distrib)
qed

lemma mapSelector_base:
  assumes "raw \<noteq> []" and "parseSelector h raw = Some parsed"
    and "resolveBaseIndex parsed = int i" and "i < length (parts parsed)"
  shows "mapSelector h recur (Some raw) =
           (case mapBasePart h parsed (parts parsed ! i) of
              Inl e \<Rightarrow> Inl e
            | Inr element \<Rightarrow>
                (case applyFilterParts h recur (None, None) (drop (Suc i) (parts parsed)) of
                   Inl e \<Rightarrow> Inl e
                 | Inr (filters, nthv) \<Rightarrow>
                     Inr (Some \<lparr>res_element = JObj element, res_filters = filters, res_nth = nthv\<rparr>)))"
  using assms by (simp add: mapSelector_def partAt_def Let_def cong: sum.case_cong)

lemma elementFromParsedSelector_body:
  "elementFromParsedSelector h fuel =
     mapSelector h (case fuel of 0 \<Rightarrow> (\<lambda>_. Inl FuelExhausted)
                    | Suc n \<Rightarrow> (\<lambda>r. elementFromParsedSelector h n (Some r)))"
  by (cases fuel) simp_all

lemma example_chain_result:
  assumes \<open>parseSelector h ''css=.btn >> internal:has-text="Go" >> nth=2'' = Some exampleChain\<close>
    and \<open>jsonParse h ''"Go"'' = Some (JStr ''Go'')\<close>
  shows \<open>mapSelector h recur (Some ''css=.btn >> internal:has-text="Go" >> nth=2'') =
     Inr (Some \<lparr>res_element = JObj [(''css'', JStr ''.btn'')],
                res_filters = Some [(''hasText'', JStr ''Go'')], res_nth = Some 2\<rparr>)\<close>
proof -
  have b: "resolveBaseIndex exampleChain = 0"
    by code_simp
  have t: \<open>parseTextSpec h (Some ''"Go"'') = JStr ''Go''\<close>
    using assms(2)
    by (simp add: parseTextSpec_def parseRegexLiteral_no_slash parseQuotedSuffix_def
        parsePlainQuoted_def parseJsonString_def endsWith_def startsWith_def)
  have "parseInt10 ''2'' = Some 2"
    by code_simp
  then have n: "nthOfBody h (BodyString ''2'') = Some 2"
    by (simp add: nthOfBody_def finiteNumber_def)
  show ?thesis
    using assms(1) b t n
    by (simp add: mapSelector_def exampleChain_def chain_def cssPart_def enginePart_def partAt_def
        mapBasePart_def applyFilterPart_def textSpecOfBody_def setFilter_def Let_def)
qed

text \<open>
  Claim C1. For a chain parsed without a non-negative capture index, let \<open>i\<close> be
  the last part whose engine name is neither a filter engine (\<^verbatim>\<open>has-text\<close>,
  \<^verbatim>\<open>has-not-text\<close>, \<^verbatim>\<open>has\<close>, \<^verbatim>\<open>has-not\<close>, \<^verbatim>\<open>visible\<close>, \<^verbatim>\<open>nth\<close>)
  nor the ignored \<^verbatim>\<open>describe\<close> engine (an engine name is a non-empty string; the
  loop steps over a part without one). Then \<open>i\<close> is the base index:
  the mapper builds the element from part \<open>i\<close> and the filters from the parts behind
  it. In particular the chain \<^verbatim>\<open>css=.btn >> internal:has-text="Go" >> nth=2\<close> maps
  to the \<^verbatim>\<open>css\<close> element \<^verbatim>\<open>.btn\<close> with \<^verbatim>\<open>filters.hasText\<close> the text matcher
  for \<^verbatim>\<open>"Go"\<close> and \<^verbatim>\<open>nth\<close> equal to 2.
\<close>

theorem base_is_last_non_filter_part:
  assumes "\<forall>c. capture parsed = Some c \<longrightarrow> c < 0"
    and "i < length (parts parsed)"
    and "part_name (parts parsed ! i) \<noteq> []"
    and "part_name (parts parsed ! i) \<notin> set FILTER_ENGINES \<union> set IGNORE_ENGINES"
    and "\<forall>j. i < j \<and> j < length (parts parsed) \<longrightarrow>
           part_name (parts parsed ! j) \<in> set FILTER_ENGINES \<union> set IGNORE_ENGINES"
    and "raw \<noteq> []"
    and "parseSelector h raw = Some parsed"
  shows \<open>resolveBaseIndex parsed = int i
    \<and> elementFromParsedSelector h fuel (Some raw) =
        (case mapBasePart h parsed (parts parsed ! i) of
           Inl e \<Rightarrow> Inl e
         | Inr element \<Rightarrow>
             (case applyFilterParts h
                     (case fuel of 0 \<Rightarrow> (\<lambda>_. Inl FuelExhausted)
                      | Suc n \<Rightarrow> (\<lambda>r. elementFromParsedSelector h n (Some r)))
                     (None, None) (drop (Suc i) (parts parsed)) of
                Inl e \<Rightarrow> Inl e
              | Inr (filters, nthv) \<Rightarrow>
                  Inr (Some \<lparr>res_element = JObj element, res_filters = filters,
                             res_nth = nthv\<rparr>)))
    \<and> (parseSelector h ''css=.btn >> internal:has-text="Go" >> nth=2'' = Some exampleChain
        \<and> jsonParse h ''"Go"'' = Some (JStr ''Go'')
        \<longrightarrow> elementFromParsedSelector h fuel (Some ''css=.btn >> internal:has-text="Go" >> nth=2'') =
              Inr (Some \<lparr>res_element = JObj [(''css'', JStr ''.btn'')],
                         res_filters = Some [(''hasText'', JStr ''Go'')],
                         res_nth = Some 2\<rparr>))\<close>
proof -
  have nc: "\<not> hasCapture parsed"
    using assms(1) by (auto simp: hasCapture_def split: option.splits)
  have b: "resolveBaseIndex parsed = int i"
    using resolveBaseIndex_last[OF nc assms(2,3,4,5)] .
  show ?thesis
    using b mapSelector_base[OF assms(6,7) b assms(2)] example_chain_result
    by (simp add: elementFromParsedSelector_body[of h fuel])
qed

text \<open>The example chain on the concrete platform.\<close>

theorem base_is_last_non_filter_part_witness:
  \<open>resolveBaseIndex exampleChain = 0
   \<and> elementFromParsedSelector recorder 0 (Some ''css=.btn >> internal:has-text="Go" >> nth=2'') =
       Inr (Some \<lparr>res_element = JObj [(''css'', JStr ''.btn'')],
                  res_filters = Some [(''hasText'', JStr ''Go'')],
                  res_nth = Some 2\<rparr>)\<close>
proof -
  have 1: "\<forall>c. capture exampleChain = Some c \<longrightarrow> c < 0"
    by (simp add: exampleChain_def chain_def)
  have 2: "0 < length (parts exampleChain)"
    by (simp add: exampleChain_def chain_def)
  have 3: "part_name (parts exampleChain ! 0) \<noteq> []"
    by (simp add: exampleChain_def chain_def cssPart_def)
  have 4: "part_name (parts exampleChain ! 0) \<notin> set FILTER_ENGINES \<union> set IGNORE_ENGINES"
    by (simp add: exampleChain_def chain_def cssPart_def FILTER_ENGINES_def IGNORE_ENGINES_def)
  have 5: "\<forall>j. 0 < j \<and> j < length (parts exampleChain) \<longrightarrow>
             part_name (parts exampleChain ! j) \<in> set FILTER_ENGINES \<union> set IGNORE_ENGINES"
  proof (intro allI impI)
    fix j assume "0 < j \<and> j < length (parts exampleChain)"
    then have "j = 1 \<or> j = 2"
      by (auto simp: exampleChain_def chain_def)
    then show "part_name (parts exampleChain ! j) \<in> set FILTER_ENGINES \<union> set IGNORE_ENGINES"
      by (auto simp: exampleChain_def chain_def enginePart_def FILTER_ENGINES_def)
  qed
  have 6: \<open>''css=.btn >> internal:has-text="Go" >> nth=2'' \<noteq> []\<close>
    by simp
  have 7: \<open>parseSelector recorder ''css=.btn >> internal:has-text="Go" >> nth=2'' = Some exampleChain\<close>
    by (simp add: recorder_def recordedSelectors_def)
  have 8: \<open>jsonParse recorder ''"Go"'' = Some (JStr ''Go'')\<close>
    by code_simp
  note t = base_is_last_non_filter_part[OF 1 2 3 4 5 6 7, of 0]
  have a: "resolveBaseIndex exampleChain = 0"
    using t[THEN conjunct1] by simp
  show ?thesis
    using a t[THEN conjunct2, THEN conjunct2, THEN mp, OF conjI[OF 7 8]] by (rule conjI)
qed

section \<open>The \<^verbatim>\<open>visible\<close> filter\<close>

lemma applyFilterPart_visible:
  assumes "part_name p = ''visible''"
  shows "applyFilterPart h recur (f, n) p =
           Inr (setFilter ''visible'' (JBool (visibleOfBody (part_body p))) f, n)"
  using assms by (simp add: applyFilterPart_def Let_def)

lemma setFilter_other:
  "k \<noteq> k' \<Longrightarrow> Option.bind (setFilter k v f) (\<lambda>kvs. map_of kvs k') = Option.bind f (\<lambda>kvs. map_of kvs k')"
  by (cases f) (simp_all add: setFilter_def update_conv')

lemma applyFilterPart_keeps_visible:
  assumes "part_name p \<noteq> ''visible''"
    and "applyFilterPart h recur (f, n) p = Inr (f', n')"
  shows "Option.bind f' (\<lambda>kvs. map_of kvs ''visible'') = Option.bind f (\<lambda>kvs. map_of kvs ''visible'')"
  using assms
  by (auto simp: applyFilterPart_def Let_def setFilter_other
      split: if_splits sum.splits option.splits)

lemma applyFilterParts_keeps_visible:
  assumes "\<forall>q \<in> set qs. part_name q \<noteq> ''visible''"
    and "applyFilterParts h recur (f, n) qs = Inr (f', n')"
  shows "Option.bind f' (\<lambda>kvs. map_of kvs ''visible'') = Option.bind f (\<lambda>kvs. map_of kvs ''visible'')"
  using assms
proof (induction qs arbitrary: f n)
  case Nil
  then show ?case by simp
next
  case (Cons q qs)
  from Cons.prems(2) obtain f1 n1 where
    1: "applyFilterPart h recur (f, n) q = Inr (f1, n1)" and
    2: "applyFilterParts h recur (f1, n1) qs = Inr (f', n')"
    by (auto split: sum.splits)
  from Cons.prems(1) have "part_name q \<noteq> ''visible''" by simp
  then have "Option.bind f1 (\<lambda>kvs. map_of kvs ''visible'') = Option.bind f (\<lambda>kvs. map_of kvs ''visible'')"
    using 1 by (rule applyFilterPart_keeps_visible)
  moreover have "Option.bind f' (\<lambda>kvs. map_of kvs ''visible'') = Option.bind f1 (\<lambda>kvs. map_of kvs ''visible'')"
    using Cons.IH[OF _ 2] Cons.prems(1) by simp
  ultimately show ?case by simp
qed

lemma applyFilterParts_append:
  "applyFilterParts h recur acc (ps @ qs) =
     (case applyFilterParts h recur acc ps of
        Inl e \<Rightarrow> Inl e
      | Inr acc' \<Rightarrow> applyFilterParts h recur acc' qs)"
  by (induction ps arbitrary: acc) (auto split: sum.splits)

lemma applyFilterParts_last_visible:
  assumes "applyFilterParts h recur acc (ps @ p # qs) = Inr (filters, nthv)"
    and "part_name p = ''visible''"
    and "\<forall>q \<in> set qs. part_name q \<noteq> ''visible''"
  shows "\<exists>kvs. filters = Some kvs \<and> map_of kvs ''visible'' = Some (JBool (visibleOfBody (part_body p)))"
proof -
  from assms(1) obtain f1 n1 where
    1: "applyFilterParts h recur acc ps = Inr (f1, n1)" and
    2: "applyFilterParts h recur (f1, n1) (p # qs) = Inr (filters, nthv)"
    by (auto simp: applyFilterParts_append split: sum.splits)
  from 2 assms(2) have
    3: "applyFilterParts h recur (setFilter ''visible'' (JBool (visibleOfBody (part_body p))) f1, n1) qs
          = Inr (filters, nthv)"
    by (simp add: applyFilterPart_visible)
  have "Option.bind filters (\<lambda>kvs. map_of kvs ''visible'')
          = Option.bind (setFilter ''visible'' (JBool (visibleOfBody (part_body p))) f1)
              (\<lambda>kvs. map_of kvs ''visible'')"
    using applyFilterParts_keeps_visible[OF assms(3) 3] .
  also have "\<dots> = Some (JBool (visibleOfBody (part_body p)))"
    by (simp add: setFilter_def update_conv')
  finally show ?thesis
    by (cases filters) simp_all
qed

lemma visibleOfBody_false:
  "(visibleOfBody b = False) = (\<exists>s. b = BodyString s \<and> toLowerCase (trim s) = ''false'')"
  by (cases b) (simp_all add: visibleOfBody_def)

text \<open>
  Claim C5, as the code has it. For the last \<^verbatim>\<open>visible\<close> part behind the base
  element, \<^verbatim>\<open>filters.visible\<close> is a boolean; it is \<^verbatim>\<open>false\<close> exactly when the
  body is a string that reads \<^verbatim>\<open>false\<close> once white space around it is trimmed and
  its letters are lower-cased, and \<^verbatim>\<open>true\<close> for every other body, absent and
  non-string bodies included.
\<close>

theorem visible_filter_fail_open:
  assumes "elementFromParsedSelector h fuel (Some raw) = Inr (Some r)"
    and "parseSelector h raw = Some parsed"
    and "0 \<le> resolveBaseIndex parsed"
    and "drop (nat (resolveBaseIndex parsed) + 1) (parts parsed) = ps @ p # qs"
    and "part_name p = ''visible''"
    and "\<forall>q \<in> set qs. part_name q \<noteq> ''visible''"
  shows "(\<exists>kvs. res_filters r = Some kvs
            \<and> map_of kvs ''visible'' = Some (JBool (visibleOfBody (part_body p))))
         \<and> (visibleOfBody (part_body p) = False)
             = (\<exists>s. part_body p = BodyString s \<and> toLowerCase (trim s) = ''false'')"
proof -
  obtain recur where m: "mapSelector h recur (Some raw) = Inr (Some r)"
    using assms(1) elementFromParsedSelector_body[of h fuel] by simp
  have ne: "raw \<noteq> []"
    using m by (auto simp: mapSelector_def)
  have "nat (resolveBaseIndex parsed) < length (parts parsed)"
  proof (rule ccontr)
    assume "\<not> nat (resolveBaseIndex parsed) < length (parts parsed)"
    then have "drop (nat (resolveBaseIndex parsed) + 1) (parts parsed) = []" by simp
    with assms(4) show False by simp
  qed
  then have pa: "partAt parsed (resolveBaseIndex parsed) = Some (parts parsed ! nat (resolveBaseIndex parsed))"
    using assms(3) by (simp add: partAt_def)
  from m ne assms(2,3) pa obtain el f n where
    l: "applyFilterParts h recur (None, None) (drop (nat (resolveBaseIndex parsed) + 1) (parts parsed)) = Inr (f, n)"
    and r: "r = \<lparr>res_element = JObj el, res_filters = f, res_nth = n\<rparr>"
    by (auto simp: mapSelector_def Let_def split: sum.splits)
  have "\<exists>kvs. f = Some kvs \<and> map_of kvs ''visible'' = Some (JBool (visibleOfBody (part_body p)))"
    using applyFilterParts_last_visible[OF l[unfolded assms(4)] assms(5,6)] .
  then show ?thesis
    using r visibleOfBody_false[of "part_body p"] by simp
qed


text \<open>The chain \<^verbatim>\<open>css=.btn >> visible=false\<close> on the concrete platform.\<close>

theorem visible_filter_fail_open_witness:
  \<open>\<exists>kvs. res_filters \<lparr>res_element = JObj [(''css'', JStr ''.btn'')],
                         res_filters = Some [(''visible'', JBool False)], res_nth = None\<rparr> = Some kvs
          \<and> map_of kvs ''visible'' = Some (JBool (visibleOfBody (BodyString ''false'')))\<close>
proof -
  have 1: \<open>elementFromParsedSelector recorder 0 (Some ''css=.btn >> visible=false'') =
             Inr (Some \<lparr>res_element = JObj [(''css'', JStr ''.btn'')],
                        res_filters = Some [(''visible'', JBool False)], res_nth = None\<rparr>)\<close>
    by code_simp
  have 2: \<open>parseSelector recorder ''css=.btn >> visible=false'' =
             Some (chain [cssPart ''.btn'', enginePart ''visible'' ''false''])\<close>
    by (simp add: recorder_def recordedSelectors_def)
  have b: \<open>resolveBaseIndex (chain [cssPart ''.btn'', enginePart ''visible'' ''false'']) = 0\<close>
    by code_simp
  have 3: \<open>0 \<le> resolveBaseIndex (chain [cssPart ''.btn'', enginePart ''visible'' ''false''])\<close>
    using b by simp
  have 4: \<open>drop (nat (resolveBaseIndex (chain [cssPart ''.btn'', enginePart ''visible'' ''false''])) + 1)
               (parts (chain [cssPart ''.btn'', enginePart ''visible'' ''false'']))
             = [] @ enginePart ''visible'' ''false'' # []\<close>
    using b by (simp add: chain_def)
  have 5: \<open>part_name (enginePart ''visible'' ''false'') = ''visible''\<close>
    by (simp add: enginePart_def)
  have 6: \<open>\<forall>q \<in> set []. part_name q \<noteq> ''visible''\<close>
    by simp
  show ?thesis
    using visible_filter_fail_open[OF 1 2 3 4 5 6, THEN conjunct1] by (simp add: enginePart_def)
qed

text \<open>
  The body \<^verbatim>\<open>FALSE\<close> is not literally \<^verbatim>\<open>false\<close>, and the filter is
  \<^verbatim>\<open>false\<close> all the same.
\<close>

theorem visible_literal_false_counterexample:
  \<open>elementFromParsedSelector recorder 0 (Some ''css=.btn >> visible=FALSE'') =
     Inr (Some \<lparr>res_element = JObj [(''css'', JStr ''.btn'')],
                res_filters = Some [(''visible'', JBool False)], res_nth = None\<rparr>)
   \<and> parseSelector recorder ''css=.btn >> visible=FALSE'' =
       Some (chain [cssPart ''.btn'', SelectorPart ''visible'' (BodyString ''FALSE'') ''FALSE''])
   \<and> ''FALSE'' \<noteq> ''false''\<close>
  by code_simp

section \<open>The accessible name of a role selector\<close>

lemma roleNameMatcher_regex:
  "attr_jsval a = JRegExp src fl \<Longrightarrow> roleNameMatcher h a = Some (textPattern src fl)"
  by (simp add: roleNameMatcher_def)

lemma roleNameMatcher_string:
  "attr_jsval a = JStr s \<Longrightarrow>
     roleNameMatcher h a = Some (if attr_caseSensitive a then textExact s else JStr s)"
  by (simp add: roleNameMatcher_def)

lemma roleNameMatcher_other:
  "attr_jsval a = JBool b \<or> attr_jsval a = JNum x \<Longrightarrow>
     roleNameMatcher h a =
       Some (if attr_caseSensitive a then textExact (jsToString h (attr_jsval a))
             else JStr (jsToString h (attr_jsval a)))"
  by (auto simp add: roleNameMatcher_def)

lemma roleAttribute_name:
  "attr_name a = ''name'' \<Longrightarrow>
     roleAttribute h el a =
       (case roleNameMatcher h a of Some m \<Rightarrow> AList.update ''name'' m el | None \<Rightarrow> el)"
  by (simp add: roleAttribute_def Let_def)

lemma role_example:
  assumes \<open>parseSelector h ''internal:role=button[name="Submit"i]'' =
             Some (chain [enginePart ''internal:role'' ''button[name="Submit"i]''])\<close>
    and \<open>parseAttributeSelector h (BodyString ''button[name="Submit"i]'') =
           \<lparr>sel_name = ''button'', sel_attributes = [stringAttribute ''name'' ''Submit'' False]\<rparr>\<close>
  shows \<open>mapSelector h recur (Some ''internal:role=button[name="Submit"i]'') =
           Inr (Some \<lparr>res_element = JObj [(''role'', JStr ''button''), (''name'', JStr ''Submit'')],
                      res_filters = None, res_nth = None\<rparr>)\<close>
proof -
  have b: \<open>resolveBaseIndex (chain [enginePart ''internal:role'' ''button[name="Submit"i]'']) = 0\<close>
    by code_simp
  show ?thesis
    using assms b
    by (simp add: mapSelector_def chain_def enginePart_def partAt_def mapBasePart_def
        roleAttribute_def roleNameMatcher_def stringAttribute_def Let_def)
qed

text \<open>
  Claim C3, as the code has it. A regex-valued \<^verbatim>\<open>name\<close> attribute maps to a
  pattern matcher, a case-sensitive string to an exact matcher, and a string that is
  not case-sensitive to the bare string, a plain-text matcher; the attribute named
  \<^verbatim>\<open>name\<close> sets the element's \<^verbatim>\<open>name\<close> to that matcher. So the body
  \<^verbatim>\<open>button[name="Submit"i]\<close> maps to the role \<^verbatim>\<open>button\<close> with the plain-text
  name \<^verbatim>\<open>Submit\<close>: no pattern and no flag.
\<close>

theorem role_name_matcher:
  \<open>(attr_jsval a = JRegExp src fl \<longrightarrow> roleNameMatcher h a = Some (textPattern src fl))
   \<and> (attr_jsval a = JStr s \<longrightarrow>
        roleNameMatcher h a = Some (if attr_caseSensitive a then textExact s else JStr s))
   \<and> (attr_name a = ''name'' \<longrightarrow>
        roleAttribute h el a =
          (case roleNameMatcher h a of Some m \<Rightarrow> AList.update ''name'' m el | None \<Rightarrow> el))
   \<and> (parseSelector h ''internal:role=button[name="Submit"i]'' =
          Some (chain [enginePart ''internal:role'' ''button[name="Submit"i]''])
        \<and> parseAttributeSelector h (BodyString ''button[name="Submit"i]'') =
            \<lparr>sel_name = ''button'', sel_attributes = [stringAttribute ''name'' ''Submit'' False]\<rparr>
        \<longrightarrow> elementFromParsedSelector h fuel (Some ''internal:role=button[name="Submit"i]'') =
              Inr (Some \<lparr>res_element = JObj [(''role'', JStr ''button''), (''name'', JStr ''Submit'')],
                         res_filters = None, res_nth = None\<rparr>))\<close>
  using roleNameMatcher_regex[of a src fl h] roleNameMatcher_string[of a s h]
    roleAttribute_name[of a h el] role_example[of h]
  by (simp add: elementFromParsedSelector_body[of h fuel])

text \<open>The example on the concrete platform.\<close>

theorem role_name_matcher_witness:
  \<open>roleNameMatcher recorder (stringAttribute ''name'' ''Submit'' False) = Some (JStr ''Submit'')
   \<and> elementFromParsedSelector recorder 0 (Some ''internal:role=button[name="Submit"i]'') =
       Inr (Some \<lparr>res_element = JObj [(''role'', JStr ''button''), (''name'', JStr ''Submit'')],
                  res_filters = None, res_nth = None\<rparr>)\<close>
proof -
  note t = role_name_matcher[of "stringAttribute ''name'' ''Submit'' False" _ _ recorder "''Submit''" _ 0]
  have 1: \<open>attr_jsval (stringAttribute ''name'' ''Submit'' False) = JStr ''Submit''\<close>
    by (simp add: stringAttribute_def)
  have 2: \<open>parseSelector recorder ''internal:role=button[name="Submit"i]'' =
             Some (chain [enginePart ''internal:role'' ''button[name="Submit"i]''])\<close>
    by (simp add: recorder_def recordedSelectors_def)
  have 3: \<open>parseAttributeSelector recorder (BodyString ''button[name="Submit"i]'') =
             \<lparr>sel_name = ''button'', sel_attributes = [stringAttribute ''name'' ''Submit'' False]\<rparr>\<close>
    by (simp add: recorder_def recordedAttributes_def)
  have a: \<open>roleNameMatcher recorder (stringAttribute ''name'' ''Submit'' False) = Some (JStr ''Submit'')\<close>
    using t[THEN conjunct2, THEN conjunct1, THEN mp, OF 1] by (simp add: stringAttribute_def)
  show ?thesis
    using a t[THEN conjunct2, THEN conjunct2, THEN conjunct2, THEN mp, OF conjI[OF 2 3]]
    by (rule conjI)
qed

text \<open>
  The name matcher of the example is the bare string, not the case-insensitive pattern
  that the claim describes.
\<close>

theorem role_name_pattern_counterexample:
  \<open>elementFromParsedSelector recorder 0 (Some ''internal:role=button[name="Submit"i]'') =
     Inr (Some \<lparr>res_element = JObj [(''role'', JStr ''button''), (''name'', JStr ''Submit'')],
                res_filters = None, res_nth = None\<rparr>)
   \<and> JStr ''Submit'' \<noteq> textPattern (escapeRegex ''Submit'') ''i''\<close>
  by code_simp

section \<open>Unparseable selectors and the fallback element\<close>

lemma elementFromParsedSelector_absent: "elementFromParsedSelector h fuel None = Inr None"
  by (simp add: elementFromParsedSelector_body[of h fuel] mapSelector_def)

lemma elementFromParsedSelector_unparseable:
  "parseSelector h raw = None \<Longrightarrow> elementFromParsedSelector h fuel (Some raw) = Inr None"
  by (simp add: elementFromParsedSelector_body[of h fuel] mapSelector_def)

lemma buildStructuredSelector_fallback:
  assumes "a_selector (aic_action aic) = Some (Some raw)" and "parseSelector h raw = None"
  shows "buildStructuredSelector h fuel aic =
           Inr (AList.update ''element'' (JObj [(''css'', JStr raw)]) (selectorFrame (aic_frame aic)))"
  using assms by (simp add: buildStructuredSelector_def elementFromParsedSelector_unparseable Let_def)

lemma buildStructuredSelector_unknown:
  assumes "a_selector (aic_action aic) = Some None"
  shows "buildStructuredSelector h fuel aic =
           Inr (AList.update ''element'' (JObj [(''css'', JStr ''UNKNOWN'')])
                  (selectorFrame (aic_frame aic)))"
  using assms by (simp add: buildStructuredSelector_def elementFromParsedSelector_absent Let_def)

text \<open>
  Claim C2. The claim is that building the structured selector never throws. An
  unparseable or absent raw string is indeed answered by the fallback element (the
  lemmas above), but the \<^verbatim>\<open>testid\<close> branch destructures the first attribute
  without looking whether there is one, a check that the \<^verbatim>\<open>internal:attr\<close> branch
  makes. The raw selector \<^verbatim>\<open>internal:testid=foo\<close> parses to a body without
  attributes, and building the selector throws.
\<close>

theorem testid_without_attributes_throws:
  \<open>buildStructuredSelector recorder fuel (clickOn ''internal:testid=foo'') = Inl TypeError\<close>
proof -
  have b: \<open>resolveBaseIndex (chain [enginePart ''internal:testid'' ''foo'']) = 0\<close>
    by code_simp
  have \<open>mapSelector recorder recur (Some ''internal:testid=foo'') = Inl TypeError\<close> for recur
    using b
    by (simp add: mapSelector_def recorder_def recordedSelectors_def recordedAttributes_def
        chain_def enginePart_def partAt_def mapBasePart_def Let_def)
  then show ?thesis
    by (simp add: buildStructuredSelector_def clickOn_def
        elementFromParsedSelector_body[of recorder fuel] Let_def)
qed

section \<open>Navigation URLs relative to the base URL\<close>

lemma buildStructuredSelector_no_selector:
  "a_selector (aic_action aic) = None \<Longrightarrow>
     buildStructuredSelector h fuel aic = Inr (selectorFrame (aic_frame aic))"
  by (simp add: buildStructuredSelector_def Let_def)

lemma map_of_stripDefaults_str:
  "map_of kvs k = Some (JStr x) \<Longrightarrow> map_of (stripDefaults kvs) k = Some (JStr x)"
  by (induction kvs rule: stripDefaults.induct)
     (auto split: jsval.splits if_splits simp: Let_def)

lemma stepEntry_str:
  assumes "map_of step k = Some (JStr x)" and "k \<noteq> ''selector''" and "k \<noteq> ''debug''"
  shows "map_of (stepEntry h s aic sel step) k = Some (JStr x)"
  using assms by (simp add: stepEntry_def Let_def map_of_stripDefaults_str update_conv')

lemma emitHeaderOnce_baseURL: "meta_baseURL (snd (emitHeaderOnce h s)) = meta_baseURL s"
  by (simp add: emitHeaderOnce_def)

lemma emitHeaderOnce_emitted: "headerEmitted (snd (emitHeaderOnce h s))"
  by (simp add: emitHeaderOnce_def)

lemma navigation_parts:
  assumes "a_name (aic_action aic) = ''navigate'' \<or> a_name (aic_action aic) = ''openPage''"
    and "a_selector (aic_action aic) = None"
    and "a_url (aic_action aic) = Some url"
    and "\<not> isTrivialUrl (Some url)"
  shows "generateActionParts h fuel s aic =
           Inr (fst (emitHeaderOnce h (inferBaseURL h s url)),
                Some (stepEntry h (snd (emitHeaderOnce h (inferBaseURL h s url))) aic
                        (selectorFrame (aic_frame aic))
                        [(''action'', JStr ''navigate''),
                         (''url'', JStr (outputUrl h (meta_baseURL (inferBaseURL h s url)) url))]),
                snd (emitHeaderOnce h (inferBaseURL h s url)))"
proof -
  have e: "(if \<not> headerEmitted t then emitHeaderOnce h t else ([], t)) = emitHeaderOnce h t" for t
    by (simp add: emitHeaderOnce_def)
  show ?thesis
    using assms
    by (auto simp add: generateActionParts_def buildStructuredSelector_no_selector Let_def e
        emitHeaderOnce_baseURL)
qed

lemma outputUrl_same_origin:
  assumes "nonEmpty base = Some b" and "newURL h b = Some bu" and "newURL h url = Some tu"
    and "url_origin bu = url_origin tu" and "url \<noteq> []"
  shows "outputUrl h base url = url_pathname tu @ url_search tu @ url_hash tu"
  using assms by (simp add: outputUrl_def)

lemma outputUrl_other_origin:
  assumes "nonEmpty base = Some b" and "newURL h b = Some bu" and "newURL h url = Some tu"
    and "url_origin bu \<noteq> url_origin tu"
  shows "outputUrl h base url = url"
  using assms by (simp add: outputUrl_def)

lemma outputUrl_unparseable:
  assumes "newURL h url = None"
  shows "outputUrl h base url = url"
  using assms by (simp add: outputUrl_def split: option.splits)

lemma outputUrl_base_unparseable:
  assumes "nonEmpty base = Some b" and "newURL h b = None"
  shows "outputUrl h base url = url"
  using assms by (simp add: outputUrl_def)

lemma outputUrl_no_base:
  assumes "nonEmpty base = None"
  shows "outputUrl h base url = url"
  using assms by (simp add: outputUrl_def)

lemma isTrivialUrl_empty: "\<not> isTrivialUrl (Some url) \<Longrightarrow> url \<noteq> []"
  by (auto simp: isTrivialUrl_def)

lemma outputUrl_example:
  assumes \<open>newURL h ''https://example.com'' =
             Some \<lparr>url_origin = ''https://example.com'', url_protocol = ''https:'',
                   url_hostname = ''example.com'', url_pathname = ''/'', url_search = [],
                   url_hash = []\<rparr>\<close>
    and \<open>newURL h ''https://example.com/a/b?x=1'' =
           Some \<lparr>url_origin = ''https://example.com'', url_protocol = ''https:'',
                 url_hostname = ''example.com'', url_pathname = ''/a/b'', url_search = ''?x=1'',
                 url_hash = []\<rparr>\<close>
    and \<open>newURL h ''https://other.com/'' =
           Some \<lparr>url_origin = ''https://other.com'', url_protocol = ''https:'',
                 url_hostname = ''other.com'', url_pathname = ''/'', url_search = [],
                 url_hash = []\<rparr>\<close>
  shows \<open>outputUrl h (Some ''https://example.com'') ''https://example.com/a/b?x=1'' = ''/a/b?x=1''
       \<and> outputUrl h (Some ''https://example.com'') ''https://other.com/'' = ''https://other.com/''\<close>
  using assms by (simp add: outputUrl_def nonEmpty_def)

text \<open>
  Claim C6, as the code has it. A \<^verbatim>\<open>navigate\<close> or \<^verbatim>\<open>openPage\<close> action with a
  retained URL emits a \<^verbatim>\<open>navigate\<close> step. When the base URL is unset, it becomes the
  origin of that URL (the URL itself when it does not parse). The emitted \<^verbatim>\<open>url\<close> is
  path, query and fragment only when the base URL itself parses as a URL and the two
  have the same origin. It is the URL unchanged when the origins differ, when the URL
  does not parse, and, whatever the URL, when the base URL does not parse or is empty.
  With the base URL \<^verbatim>\<open>https://example.com\<close>, \<^verbatim>\<open>https://example.com/a/b?x=1\<close> is
  emitted as \<^verbatim>\<open>/a/b?x=1\<close> and \<^verbatim>\<open>https://other.com/\<close> as it is.
\<close>

theorem navigate_url_relative_to_base:
  assumes "a_name (aic_action aic) = ''navigate'' \<or> a_name (aic_action aic) = ''openPage''"
    and "a_selector (aic_action aic) = None"
    and "a_url (aic_action aic) = Some url"
    and "\<not> isTrivialUrl (Some url)"
  shows \<open>(\<exists>hdr entry s'.
      generateActionParts h fuel s aic = Inr (hdr, Some entry, s')
    \<and> map_of entry ''action'' = Some (JStr ''navigate'')
    \<and> map_of entry ''url'' = Some (JStr (outputUrl h (meta_baseURL s') url))
    \<and> meta_baseURL s' =
        (if nonEmpty (meta_baseURL s) = None
         then Some (case newURL h url of Some p \<Rightarrow> url_origin p | None \<Rightarrow> url)
         else meta_baseURL s)
    \<and> (\<forall>b bu tu. nonEmpty (meta_baseURL s') = Some b \<and> newURL h b = Some bu \<and> newURL h url = Some tu \<longrightarrow>
          outputUrl h (meta_baseURL s') url =
            (if url_origin bu = url_origin tu then url_pathname tu @ url_search tu @ url_hash tu
             else url))
    \<and> (\<forall>b. nonEmpty (meta_baseURL s') = Some b \<and> newURL h b = None \<longrightarrow>
          outputUrl h (meta_baseURL s') url = url)
    \<and> (nonEmpty (meta_baseURL s') = None \<longrightarrow> outputUrl h (meta_baseURL s') url = url)
    \<and> (newURL h url = None \<longrightarrow> outputUrl h (meta_baseURL s') url = url))
   \<and> (newURL h ''https://example.com'' =
          Some \<lparr>url_origin = ''https://example.com'', url_protocol = ''https:'',
                url_hostname = ''example.com'', url_pathname = ''/'', url_search = [],
                url_hash = []\<rparr>
        \<and> newURL h ''https://example.com/a/b?x=1'' =
            Some \<lparr>url_origin = ''https://example.com'', url_protocol = ''https:'',
                  url_hostname = ''example.com'', url_pathname = ''/a/b'', url_search = ''?x=1'',
                  url_hash = []\<rparr>
        \<and> newURL h ''https://other.com/'' =
            Some \<lparr>url_origin = ''https://other.com'', url_protocol = ''https:'',
                  url_hostname = ''other.com'', url_pathname = ''/'', url_search = [],
                  url_hash = []\<rparr>
        \<longrightarrow> outputUrl h (Some ''https://example.com'') ''https://example.com/a/b?x=1'' = ''/a/b?x=1''
            \<and> outputUrl h (Some ''https://example.com'') ''https://other.com/'' =
                ''https://other.com/'')\<close>
proof -
  let ?s1 = "inferBaseURL h s url"
  let ?s2 = "snd (emitHeaderOnce h ?s1)"
  let ?step = "[(''action'', JStr ''navigate''), (''url'', JStr (outputUrl h (meta_baseURL ?s1) url))]"
  let ?entry = "stepEntry h ?s2 aic (selectorFrame (aic_frame aic)) ?step"
  have ne: "url \<noteq> []" using assms(4) by (rule isTrivialUrl_empty)
  have b2: "meta_baseURL ?s2 = meta_baseURL ?s1" by (rule emitHeaderOnce_baseURL)
  have p: "generateActionParts h fuel s aic = Inr (fst (emitHeaderOnce h ?s1), Some ?entry, ?s2)"
    using navigation_parts[OF assms] .
  have a: "map_of ?entry ''action'' = Some (JStr ''navigate'')"
    by (rule stepEntry_str) simp_all
  have u: "map_of ?entry ''url'' = Some (JStr (outputUrl h (meta_baseURL ?s2) url))"
    unfolding b2 by (rule stepEntry_str) simp_all
  have m: "meta_baseURL ?s2 =
        (if nonEmpty (meta_baseURL s) = None
         then Some (case newURL h url of Some p \<Rightarrow> url_origin p | None \<Rightarrow> url)
         else meta_baseURL s)"
    unfolding b2 by (simp add: inferBaseURL_def)
  have r: "\<forall>b bu tu. nonEmpty (meta_baseURL ?s2) = Some b \<and> newURL h b = Some bu \<and> newURL h url = Some tu \<longrightarrow>
          outputUrl h (meta_baseURL ?s2) url =
            (if url_origin bu = url_origin tu then url_pathname tu @ url_search tu @ url_hash tu
             else url)"
    using ne by (auto simp: outputUrl_same_origin outputUrl_other_origin)
  have bn: "\<forall>b. nonEmpty (meta_baseURL ?s2) = Some b \<and> newURL h b = None \<longrightarrow>
          outputUrl h (meta_baseURL ?s2) url = url"
    by (auto simp: outputUrl_base_unparseable)
  have nb: "nonEmpty (meta_baseURL ?s2) = None \<longrightarrow> outputUrl h (meta_baseURL ?s2) url = url"
    by (simp add: outputUrl_no_base)
  have n: "newURL h url = None \<longrightarrow> outputUrl h (meta_baseURL ?s2) url = url"
    by (simp add: outputUrl_unparseable)
  have ex: \<open>\<exists>hdr entry s'.
      generateActionParts h fuel s aic = Inr (hdr, Some entry, s')
    \<and> map_of entry ''action'' = Some (JStr ''navigate'')
    \<and> map_of entry ''url'' = Some (JStr (outputUrl h (meta_baseURL s') url))
    \<and> meta_baseURL s' =
        (if nonEmpty (meta_baseURL s) = None
         then Some (case newURL h url of Some p \<Rightarrow> url_origin p | None \<Rightarrow> url)
         else meta_baseURL s)
    \<and> (\<forall>b bu tu. nonEmpty (meta_baseURL s') = Some b \<and> newURL h b = Some bu \<and> newURL h url = Some tu \<longrightarrow>
          outputUrl h (meta_baseURL s') url =
            (if url_origin bu = url_origin tu then url_pathname tu @ url_search tu @ url_hash tu
             else url))
    \<and> (\<forall>b. nonEmpty (meta_baseURL s') = Some b \<and> newURL h b = None \<longrightarrow>
          outputUrl h (meta_baseURL s') url = url)
    \<and> (nonEmpty (meta_baseURL s') = None \<longrightarrow> outputUrl h (meta_baseURL s') url = url)
    \<and> (newURL h url = None \<longrightarrow> outputUrl h (meta_baseURL s') url = url)\<close>
    by (rule exI[where x = "fst (emitHeaderOnce h ?s1)"], rule exI[where x = ?entry],
        rule exI[where x = ?s2]) (intro conjI p a u m r bn nb n)
  show ?thesis
    by (rule conjI[OF ex]) (rule impI, elim conjE, rule outputUrl_example)
qed


text \<open>The first navigation of a recording, on the concrete platform.\<close>

theorem navigate_url_relative_to_base_witness:
  \<open>\<exists>hdr entry s'.
      generateActionParts recorder 0 initialEmitter (navigateTo ''https://example.com/a/b?x=1'') =
        Inr (hdr, Some entry, s')
    \<and> map_of entry ''url'' = Some (JStr ''/a/b?x=1'')
    \<and> meta_baseURL s' = Some ''https://example.com''\<close>
proof -
  have 1: \<open>a_name (aic_action (navigateTo ''https://example.com/a/b?x=1'')) = ''navigate''
           \<or> a_name (aic_action (navigateTo ''https://example.com/a/b?x=1'')) = ''openPage''\<close>
    by (simp add: navigateTo_def plainAction_def)
  have 2: \<open>a_selector (aic_action (navigateTo ''https://example.com/a/b?x=1'')) = None\<close>
    by (simp add: navigateTo_def plainAction_def)
  have 3: \<open>a_url (aic_action (navigateTo ''https://example.com/a/b?x=1'')) =
             Some ''https://example.com/a/b?x=1''\<close>
    by (simp add: navigateTo_def plainAction_def)
  have 4: \<open>\<not> isTrivialUrl (Some ''https://example.com/a/b?x=1'')\<close>
    by code_simp
  have 5: \<open>nonEmpty (meta_baseURL initialEmitter) = None\<close>
    by (simp add: initialEmitter_def nonEmpty_def)
  have 6: \<open>(case newURL recorder ''https://example.com/a/b?x=1'' of
              Some p \<Rightarrow> url_origin p
            | None \<Rightarrow> ''https://example.com/a/b?x=1'') = ''https://example.com''\<close>
    by code_simp
  have 7: \<open>outputUrl recorder (Some ''https://example.com'') ''https://example.com/a/b?x=1'' =
             ''/a/b?x=1''\<close>
    by code_simp
  from navigate_url_relative_to_base[OF 1 2 3 4, of recorder 0 initialEmitter, THEN conjunct1]
  obtain hdr entry s' where
    p: \<open>generateActionParts recorder 0 initialEmitter (navigateTo ''https://example.com/a/b?x=1'') =
          Inr (hdr, Some entry, s')\<close>
    and u: \<open>map_of entry ''url'' =
              Some (JStr (outputUrl recorder (meta_baseURL s') ''https://example.com/a/b?x=1''))\<close>
    and m: \<open>meta_baseURL s' =
              (if nonEmpty (meta_baseURL initialEmitter) = None
               then Some (case newURL recorder ''https://example.com/a/b?x=1'' of
                            Some p \<Rightarrow> url_origin p
                          | None \<Rightarrow> ''https://example.com/a/b?x=1'')
               else meta_baseURL initialEmitter)\<close>
    by blast
  have m': \<open>meta_baseURL s' = Some ''https://example.com''\<close>
    using m 5 6 by simp
  have u': \<open>map_of entry ''url'' = Some (JStr ''/a/b?x=1'')\<close>
    using u m' 7 by simp
  show ?thesis
    using p u' m' by blast
qed

text \<open>
  The base URL need not parse. The first retained URL \<^verbatim>\<open>file:///a.html\<close> has the
  opaque origin \<^verbatim>\<open>null\<close>, which becomes the base URL and is not a URL. The step
  keeps the absolute URL, although its origin is the base URL and its path is
  \<^verbatim>\<open>/a.html\<close>.
\<close>

theorem navigate_opaque_origin_counterexample:
  \<open>generateActionParts recorder 0 initialEmitter (navigateTo ''file:///a.html'') =
     Inr ([''name: Recorded Scenario'', ''steps:'', []],
          Some [(''action'', JStr ''navigate''), (''url'', JStr ''file:///a.html''),
                (''selector'', JObj [(''page'', JStr ''page'')])],
          initialEmitter\<lparr>headerEmitted := True, meta_baseURL := Some ''null''\<rparr>)
   \<and> newURL recorder ''file:///a.html'' =
       Some \<lparr>url_origin = ''null'', url_protocol = ''file:'', url_hostname = [],
             url_pathname = ''/a.html'', url_search = [], url_hash = []\<rparr>
   \<and> newURL recorder ''null'' = None
   \<and> ''file:///a.html'' \<noteq> ''/a.html''\<close>
  by code_simp

section \<open>Secret masking of \<^verbatim>\<open>fill\<close> steps\<close>

lemma maybeMaskValue_result:
  "maybeMaskValue h el txt = Inr r \<Longrightarrow> r = txt \<or> r = Some maskToken"
  by (auto simp: maybeMaskValue_def split: if_splits sum.splits bool.splits)

lemma fill_testid_masked:
  \<open>generateActionParts recorder 0 initialEmitter
      (fillIn ''internal:testid=[data-testid="login-password"s]'' ''hunter2'') =
    Inr ([],
         Some [(''action'', JStr ''fill''), (''text'', JStr maskToken),
               (''selector'',
                JObj [(''page'', JStr ''page''),
                      (''element'', JObj [(''testId'', JStr ''login-password'')])])],
         initialEmitter)\<close>
  by code_simp

lemma fill_other_verbatim:
  \<open>generateActionParts recorder 0 initialEmitter
      (fillIn ''internal:testid=[data-testid="username"s]'' ''hunter2'') =
    Inr ([],
         Some [(''action'', JStr ''fill''), (''text'', JStr ''hunter2''),
               (''selector'',
                JObj [(''page'', JStr ''page''),
                      (''element'', JObj [(''testId'', JStr ''username'')])])],
         initialEmitter)\<close>
  by code_simp

text \<open>
  Claim C7. The element \<^verbatim>\<open>{testId: "login-password"}\<close> is masked and a fill that
  matches nothing keeps its text (the lemmas above). For a \<^verbatim>\<open>role\<close> element the
  pattern is tested against \<^verbatim>\<open>el.name\<close> itself, and not through
  \<^verbatim>\<open>matchText\<close> as for \<^verbatim>\<open>label\<close>, \<^verbatim>\<open>placeholder\<close> and \<^verbatim>\<open>text\<close>. An
  accessible name that is an exact or a regex matcher is an object, reads
  \<^verbatim>\<open>[object Object]\<close> and is never masked: the fill on
  \<^verbatim>\<open>internal:role=textbox[name="Password"s]\<close> emits \<^verbatim>\<open>hunter2\<close>, where the same
  matcher on a label is masked.
\<close>

theorem fill_role_exact_name_not_masked:
  \<open>generateActionParts recorder 0 initialEmitter
      (fillIn ''internal:role=textbox[name="Password"s]'' ''hunter2'') =
    Inr ([],
         Some [(''action'', JStr ''fill''), (''text'', JStr ''hunter2''),
               (''selector'',
                JObj [(''page'', JStr ''page''),
                      (''element'',
                       JObj [(''role'', JStr ''textbox''),
                             (''name'', JObj [(''value'', JStr ''Password''),
                                             (''exact'', JBool True)])])])],
         initialEmitter)
   \<and> secretPattern ''Password''
   \<and> generateActionParts recorder 0 initialEmitter
      (fillIn ''internal:label="Password"s'' ''hunter2'') =
    Inr ([],
         Some [(''action'', JStr ''fill''), (''text'', JStr maskToken),
               (''selector'',
                JObj [(''page'', JStr ''page''),
                      (''element'',
                       JObj [(''label'', JObj [(''value'', JStr ''Password''),
                                              (''exact'', JBool True)])])])],
         initialEmitter)\<close>
  by code_simp

section \<open>The header of the scenario\<close>

lemma trivial_navigation_suppressed:
  assumes "a_name (aic_action aic) = ''navigate'' \<or> a_name (aic_action aic) = ''openPage''"
    and "a_selector (aic_action aic) = None"
    and "isTrivialUrl (a_url (aic_action aic))"
  shows "generateAction h fuel s aic = Inr ([], s)"
  using assms
  by (auto simp: generateAction_def generateActionOut_def generateActionParts_def
      buildStructuredSelector_no_selector Let_def)

lemma header_written_at_most_once:
  assumes "generateActionParts h fuel s aic = Inr (hdr, entry, s')" and "headerEmitted s"
  shows "hdr = [] \<and> headerEmitted s'"
  using assms
  by (auto simp: generateActionParts_def Let_def inferBaseURL_def emitHeaderOnce_def
      split: sum.splits if_splits)

lemma header_lines:
  assumes "generateActionParts h fuel s aic = Inr (hdr, entry, s')" and "hdr \<noteq> []"
  shows "\<not> headerEmitted s \<and> headerEmitted s' \<and> length hdr = 3 \<and> hdr ! 1 = ''steps:''
         \<and> (a_name (aic_action aic) = ''navigate'' \<or> a_name (aic_action aic) = ''openPage'')"
  using assms
  by (auto simp: generateActionParts_def Let_def inferBaseURL_def emitHeaderOnce_def
      split: sum.splits if_splits)

lemma other_action_writes_no_header:
  assumes "generateActionParts h fuel s aic = Inr (hdr, entry, s')"
    and "a_name (aic_action aic) \<noteq> ''navigate''" and "a_name (aic_action aic) \<noteq> ''openPage''"
  shows "hdr = [] \<and> entry \<noteq> None \<and> s' = s"
  using assms
  by (auto simp: generateActionParts_def Let_def split: sum.splits)

text \<open>
  A recording of navigations of which exactly one is retained gives one header block
  followed by one step, however many trivial navigations stand before and behind it.
\<close>

lemma trivial_navigation_out:
  assumes "a_name (aic_action aic) = ''navigate'' \<or> a_name (aic_action aic) = ''openPage''"
    and "a_selector (aic_action aic) = None"
    and "isTrivialUrl (a_url (aic_action aic))"
  shows "generateActionOut h fuel s aic = Inr ([], s)"
  using assms
  by (auto simp: generateActionOut_def generateActionParts_def
      buildStructuredSelector_no_selector Let_def)

lemma generateActions_trivial:
  assumes "\<forall>aic \<in> set as.
             (a_name (aic_action aic) = ''navigate'' \<or> a_name (aic_action aic) = ''openPage'')
             \<and> a_selector (aic_action aic) = None \<and> isTrivialUrl (a_url (aic_action aic))"
  shows "generateActions h fuel s as = Inr ([], s)"
  using assms by (induction as) (simp_all add: trivial_navigation_out)

lemma generateActions_append:
  "generateActions h fuel s (xs @ ys) =
     (case generateActions h fuel s xs of
        Inl e \<Rightarrow> Inl e
      | Inr (out, s1) \<Rightarrow>
          (case generateActions h fuel s1 ys of
             Inl e \<Rightarrow> Inl e
           | Inr (outs, s2) \<Rightarrow> Inr (out @ outs, s2)))"
  by (induction xs arbitrary: s) (auto split: sum.splits)

lemma one_retained_navigation:
  assumes "\<forall>aic \<in> set (pre @ post).
             (a_name (aic_action aic) = ''navigate'' \<or> a_name (aic_action aic) = ''openPage'')
             \<and> a_selector (aic_action aic) = None \<and> isTrivialUrl (a_url (aic_action aic))"
    and "a_name (aic_action a) = ''navigate'' \<or> a_name (aic_action a) = ''openPage''"
    and "a_selector (aic_action a) = None"
    and "a_url (aic_action a) = Some url"
    and "\<not> isTrivialUrl (Some url)"
    and "\<not> headerEmitted s"
  shows "\<exists>meta item s'. generateActions h fuel s (pre @ a # post) = Inr ([meta, ''steps:'', [], item], s')"
proof -
  have pre: "generateActions h fuel s pre = Inr ([], s)"
    using assms(1) by (intro generateActions_trivial) simp
  have post: "generateActions h fuel t post = Inr ([], t)" for t
    using assms(1) by (intro generateActions_trivial) simp
  have ne: "\<not> headerEmitted (inferBaseURL h s url)"
    using assms(6) by (simp add: inferBaseURL_def)
  obtain meta where hd: "fst (emitHeaderOnce h (inferBaseURL h s url)) = [meta, ''steps:'', []]"
    using ne by (simp add: emitHeaderOnce_def)
  have "\<exists>item s'. generateActionOut h fuel s a = Inr ([meta, ''steps:'', [], item], s')"
    using navigation_parts[OF assms(2,3,4,5), of h fuel s] hd
    by (simp add: generateActionOut_def)
  then obtain item s' where a: "generateActionOut h fuel s a = Inr ([meta, ''steps:'', [], item], s')"
    by blast
  have "generateActions h fuel s (pre @ a # post) = Inr ([meta, ''steps:'', [], item], s')"
    using pre a post[of s'] by (simp add: generateActions_append)
  then show ?thesis by blast
qed

lemma data_navigation_out:
  \<open>generateActionOut recorder 0 initialEmitter (navigateTo ''data:text/html,<button class=btn>'') =
     Inr ([], initialEmitter)\<close>
  by code_simp

lemma click_out:
  \<open>generateActionOut recorder 0 initialEmitter (clickOn ''css=.btn'') =
     Inr ([''  - action: click'' @ [CHR 0x0A]], initialEmitter)\<close>
  by code_simp

lemma first_navigation_out:
  \<open>generateActionOut recorder 0 initialEmitter (navigateTo ''https://example.com/a/b?x=1'') =
     Inr ([''name: Recorded Scenario'', ''steps:'', [], ''  - action: navigate'' @ [CHR 0x0A]],
          initialEmitter\<lparr>headerEmitted := True, meta_baseURL := Some ''https://example.com''\<rparr>)\<close>
  by code_simp

lemma click_parts:
  \<open>generateActionParts recorder 0 initialEmitter (clickOn ''css=.btn'') =
       Inr ([],
            Some [(''action'', JStr ''click''), (''button'', JStr ''left''),
                  (''selector'',
                   JObj [(''page'', JStr ''page''), (''element'', JObj [(''css'', JStr ''.btn'')])])],
            initialEmitter)\<close>
  by code_simp

lemma generateHeader_plain:
  \<open>generateHeader recorder None None initialEmitter = Inr (''# Generated by Genfest'', initialEmitter)\<close>
  by code_simp

text \<open>
  Claim C8. A trivial navigation returns the empty fragment and changes nothing, the
  header is written at most once, and a recording of navigations with one retained URL
  gives one header block and one step (the lemmas above). But only the
  \<^verbatim>\<open>openPage\<close>/\<^verbatim>\<open>navigate\<close> branch writes the header. After a suppressed
  navigation to a \<^verbatim>\<open>data:\<close> page the first retained action is a click: its step is
  emitted with no header before it and leaves \<^verbatim>\<open>_headerEmitted\<close> unset, and the
  header follows with the first retained navigation, behind the first step.
\<close>

theorem first_step_without_header:
  \<open>generateHeader recorder None None initialEmitter = Inr (''# Generated by Genfest'', initialEmitter)
   \<and> \<not> headerEmitted initialEmitter
   \<and> generateActionParts recorder 0 initialEmitter (clickOn ''css=.btn'') =
       Inr ([],
            Some [(''action'', JStr ''click''), (''button'', JStr ''left''),
                  (''selector'',
                   JObj [(''page'', JStr ''page''), (''element'', JObj [(''css'', JStr ''.btn'')])])],
            initialEmitter)
   \<and> generateActions recorder 0 initialEmitter
         [navigateTo ''data:text/html,<button class=btn>'', clickOn ''css=.btn'',
          navigateTo ''https://example.com/a/b?x=1''] =
       Inr ([''  - action: click'' @ [CHR 0x0A], ''name: Recorded Scenario'', ''steps:'', [],
             ''  - action: navigate'' @ [CHR 0x0A]],
            initialEmitter\<lparr>headerEmitted := True, meta_baseURL := Some ''https://example.com''\<rparr>)\<close>
  using generateHeader_plain click_parts data_navigation_out click_out first_navigation_out
  by (simp add: initialEmitter_def)

section \<open>The two versions of the generator\<close>

lemma common_engine_facts:
  assumes "name \<in> set COMMON_ENGINES"
  shows "name \<noteq> []" and "name \<notin> set IGNORE_ENGINES"
    and "(name \<in> set FILTER_ENGINES) = (name \<in> set FILTER_ENGINES_v1)"
  using assms
  by (auto simp: COMMON_ENGINES_def IGNORE_ENGINES_def FILTER_ENGINES_def FILTER_ENGINES_v1_def)

lemma scanBack_common:
  assumes "\<forall>p \<in> set ps. part_name p \<in> set COMMON_ENGINES" and "n \<le> length ps"
  shows "scanBack ps n = (case scanBack_v1 ps n of Some i \<Rightarrow> i | None \<Rightarrow> - 1)"
  using assms(2)
proof (induction n)
  case 0
  then show ?case by simp
next
  case (Suc m)
  then have "ps ! m \<in> set ps" by simp
  then have c: "part_name (ps ! m) \<in> set COMMON_ENGINES" using assms(1) by blast
  show ?case
    using Suc common_engine_facts[OF c] by (simp add: Let_def)
qed

lemma scanBack_v1_bound: "scanBack_v1 ps n = Some i \<Longrightarrow> 0 \<le> i \<and> nat i < n"
  by (induction n) (auto split: if_splits)

lemma resolveBaseIndex_common:
  assumes "\<forall>p \<in> set (parts parsed). part_name p \<in> set COMMON_ENGINES"
  shows "resolveBaseIndex parsed = resolveBaseIndex_v1 parsed"
proof -
  have ni: "i < length (parts parsed) \<Longrightarrow> part_name (parts parsed ! i) \<notin> set IGNORE_ENGINES" for i
    using assms common_engine_facts(2) by (metis nth_mem)
  have sk: "0 \<le> k \<Longrightarrow> skipIgnored (parts parsed) (nat (k + 1)) = k" for k
  proof -
    assume k: "0 \<le> k"
    then have "nat (k + 1) = Suc (nat k)" by simp
    then show ?thesis using k ni[of "nat k"] by auto
  qed
  show ?thesis
  proof (cases "hasCapture parsed")
    case True
    then have "0 \<le> the (capture parsed)"
      by (auto simp: hasCapture_def split: option.splits)
    then show ?thesis
      using True sk by (simp add: resolveBaseIndex_def initialBaseIndex_def resolveBaseIndex_v1_def)
  next
    case False
    show ?thesis
    proof (cases "scanBack_v1 (parts parsed) (length (parts parsed))")
      case None
      then have "scanBack (parts parsed) (length (parts parsed)) = - 1"
        using scanBack_common[OF assms, of "length (parts parsed)"] by simp
      then have i: "initialBaseIndex parsed = int (length (parts parsed)) - 1"
        using False by (simp add: initialBaseIndex_def)
      show ?thesis
      proof (cases "parts parsed = []")
        case True
        then show ?thesis
          using i None False by (simp add: resolveBaseIndex_def resolveBaseIndex_v1_def)
      next
        case nonempty: False
        then have "0 \<le> int (length (parts parsed)) - 1"
          by (cases "parts parsed") simp_all
        then show ?thesis
          using i None False sk[of "int (length (parts parsed)) - 1"]
          by (simp add: resolveBaseIndex_def resolveBaseIndex_v1_def)
      qed
    next
      case (Some i)
      then have "scanBack (parts parsed) (length (parts parsed)) = i"
        using scanBack_common[OF assms, of "length (parts parsed)"] by simp
      moreover have "0 \<le> i" using scanBack_v1_bound[OF Some] by simp
      ultimately show ?thesis
        using Some False sk[of i]
        by (auto simp add: resolveBaseIndex_def initialBaseIndex_def resolveBaseIndex_v1_def Let_def)
    qed
  qed
qed

lemma mapBasePart_common:
  assumes "part_name p \<in> set COMMON_ENGINES"
  shows "mapBasePart h parsed p = mapBasePart_v1 h parsed p"
  using assms by (auto simp: COMMON_ENGINES_def mapBasePart_def mapBasePart_v1_def Let_def)

lemma applyFilterPart_common:
  assumes "part_name p \<in> set COMMON_ENGINES"
  shows "applyFilterPart h recur acc p = applyFilterPart_v1 h acc p"
  using assms by (auto simp: COMMON_ENGINES_def applyFilterPart_def applyFilterPart_v1_def Let_def)

lemma applyFilterParts_common:
  assumes "\<forall>p \<in> set ps. part_name p \<in> set COMMON_ENGINES"
  shows "applyFilterParts h recur acc ps = applyFilterParts_v1 h acc ps"
  using assms
  by (induction ps arbitrary: acc) (auto simp: applyFilterPart_common split: sum.splits)

lemma mapSelector_common:
  assumes "parseSelector h raw = Some parsed"
    and "\<forall>p \<in> set (parts parsed). part_name p \<in> set COMMON_ENGINES"
  shows "mapSelector h recur (Some raw) = elementFromParsedSelector_v1 h (Some raw)"
proof (cases "raw = []")
  case True
  then show ?thesis by (simp add: mapSelector_def elementFromParsedSelector_v1_def)
next
  case False
  let ?b = "resolveBaseIndex_v1 parsed"
  have b: "resolveBaseIndex parsed = ?b" using resolveBaseIndex_common[OF assms(2)] .
  show ?thesis
  proof (cases "partAt parsed ?b")
    case None
    then show ?thesis
      using False assms(1) b by (simp add: mapSelector_def elementFromParsedSelector_v1_def Let_def)
  next
    case (Some basePart)
    then have nn: "\<not> ?b < 0" and "basePart \<in> set (parts parsed)"
      by (auto simp: partAt_def split: if_splits)
    then have m: "mapBasePart h parsed basePart = mapBasePart_v1 h parsed basePart"
      using assms(2) mapBasePart_common by blast
    have "\<forall>p \<in> set (drop (nat ?b + 1) (parts parsed)). part_name p \<in> set COMMON_ENGINES"
      using assms(2) by (meson in_set_dropD)
    then have f: "applyFilterParts h recur (None, None) (drop (nat ?b + 1) (parts parsed)) =
                  applyFilterParts_v1 h (None, None) (drop (nat ?b + 1) (parts parsed))"
      by (rule applyFilterParts_common)
    show ?thesis
      using False assms(1) b Some nn m f
      by (simp add: mapSelector_def elementFromParsedSelector_v1_def Let_def cong: sum.case_cong)
  qed
qed


lemma generateHeader_same_string:
  "map_sum id fst (generateHeader_v1 h env baseURL s) = map_sum id fst (generateHeader h env baseURL s)"
  by (auto simp: generateHeader_v1_def generateHeader_def Let_def split: option.splits sum.splits)

lemma buildStructuredSelector_v1_no_selector:
  "a_selector (aic_action aic) = None \<Longrightarrow>
     buildStructuredSelector_v1 h aic = Inr (selectorFrame_v1 (aic_frame aic))"
  by (simp add: buildStructuredSelector_v1_def truthySelector_def Let_def)

lemma trivial_navigation_suppressed_v1:
  assumes "a_name (aic_action aic) = ''navigate'' \<or> a_name (aic_action aic) = ''openPage''"
    and "a_selector (aic_action aic) = None"
    and "isTrivialUrl (a_url (aic_action aic))"
  shows "generateAction_v1 h s aic = Inr ([], s)"
  using assms
  by (auto simp: generateAction_v1_def generateActionParts_v1_def
      buildStructuredSelector_v1_no_selector Let_def)

text \<open>
  Claim C10, as the code has it. The two versions return the same strings from
  \<^verbatim>\<open>generateFooter\<close> and \<^verbatim>\<open>generateHeader\<close> (and throw on the same seeds), the
  same empty fragment for a trivial navigation, and their mappers return equal results
  for an absent, an empty and an unparseable raw string and for every chain whose parts
  use only the engines that both versions treat alike: \<^verbatim>\<open>testid\<close>, \<^verbatim>\<open>text\<close>,
  \<^verbatim>\<open>label\<close>, \<^verbatim>\<open>placeholder\<close>, \<^verbatim>\<open>css\<close>, \<^verbatim>\<open>css:light\<close>, \<^verbatim>\<open>xpath\<close>,
  \<^verbatim>\<open>has-text\<close> and \<^verbatim>\<open>nth\<close>.
\<close>

theorem versions_agree_on_common_engines:
  \<open>generateFooter_v1 saveStorage = generateFooter saveStorage
   \<and> map_sum id fst (generateHeader_v1 h env baseURL s) =
       map_sum id fst (generateHeader h env baseURL s)
   \<and> elementFromParsedSelector_v1 h None = elementFromParsedSelector h fuel None
   \<and> elementFromParsedSelector_v1 h (Some []) = elementFromParsedSelector h fuel (Some [])
   \<and> (parseSelector h raw = None \<longrightarrow>
        elementFromParsedSelector_v1 h (Some raw) = elementFromParsedSelector h fuel (Some raw))
   \<and> (parseSelector h raw = Some parsed
        \<and> (\<forall>p \<in> set (parts parsed). part_name p \<in> set COMMON_ENGINES) \<longrightarrow>
        elementFromParsedSelector_v1 h (Some raw) = elementFromParsedSelector h fuel (Some raw))
   \<and> ((a_name (aic_action aic) = ''navigate'' \<or> a_name (aic_action aic) = ''openPage'')
        \<and> a_selector (aic_action aic) = None \<and> isTrivialUrl (a_url (aic_action aic)) \<longrightarrow>
        generateAction_v1 h s aic = generateAction h fuel s aic)\<close>
proof -
  have 1: "generateFooter_v1 saveStorage = generateFooter saveStorage"
    by (simp add: generateFooter_v1_def generateFooter_def)
  have 3: "elementFromParsedSelector_v1 h None = elementFromParsedSelector h fuel None"
    by (simp add: elementFromParsedSelector_v1_def elementFromParsedSelector_absent)
  have 4: "elementFromParsedSelector_v1 h (Some []) = elementFromParsedSelector h fuel (Some [])"
    by (simp add: elementFromParsedSelector_v1_def elementFromParsedSelector_body[of h fuel]
        mapSelector_def)
  have 5: "parseSelector h raw = None \<longrightarrow>
        elementFromParsedSelector_v1 h (Some raw) = elementFromParsedSelector h fuel (Some raw)"
    by (simp add: elementFromParsedSelector_v1_def elementFromParsedSelector_unparseable)
  have 6: "parseSelector h raw = Some parsed
        \<and> (\<forall>p \<in> set (parts parsed). part_name p \<in> set COMMON_ENGINES) \<longrightarrow>
        elementFromParsedSelector_v1 h (Some raw) = elementFromParsedSelector h fuel (Some raw)"
    using mapSelector_common[of h raw parsed]
    by (simp add: elementFromParsedSelector_body[of h fuel])
  have 7: "(a_name (aic_action aic) = ''navigate'' \<or> a_name (aic_action aic) = ''openPage'')
        \<and> a_selector (aic_action aic) = None \<and> isTrivialUrl (a_url (aic_action aic)) \<longrightarrow>
        generateAction_v1 h s aic = generateAction h fuel s aic"
    using trivial_navigation_suppressed_v1[of aic h s] trivial_navigation_suppressed[of aic h fuel s]
    by simp
  show ?thesis
    by (intro conjI 1 generateHeader_same_string 3 4 5 6 7)
qed

text \<open>The example chain and a trivial navigation on the concrete platform.\<close>

theorem versions_agree_on_common_engines_witness:
  \<open>elementFromParsedSelector_v1 recorder (Some ''css=.btn >> internal:has-text="Go" >> nth=2'') =
     elementFromParsedSelector recorder 0 (Some ''css=.btn >> internal:has-text="Go" >> nth=2'')
   \<and> generateAction_v1 recorder initialEmitter (navigateTo ''about:blank'') =
       generateAction recorder 0 initialEmitter (navigateTo ''about:blank'')\<close>
proof -
  note t = versions_agree_on_common_engines[of _ recorder _ _ initialEmitter 0
      \<open>''css=.btn >> internal:has-text="Go" >> nth=2''\<close> exampleChain
      \<open>navigateTo ''about:blank''\<close>]
  have p: \<open>parseSelector recorder ''css=.btn >> internal:has-text="Go" >> nth=2'' = Some exampleChain\<close>
    by (simp add: recorder_def recordedSelectors_def)
  have c: \<open>\<forall>p \<in> set (parts exampleChain). part_name p \<in> set COMMON_ENGINES\<close>
    by (simp add: exampleChain_def chain_def cssPart_def enginePart_def COMMON_ENGINES_def)
  have n: \<open>(a_name (aic_action (navigateTo ''about:blank'')) = ''navigate''
             \<or> a_name (aic_action (navigateTo ''about:blank'')) = ''openPage'')
           \<and> a_selector (aic_action (navigateTo ''about:blank'')) = None
           \<and> isTrivialUrl (a_url (aic_action (navigateTo ''about:blank'')))\<close>
    by code_simp
  show ?thesis
    using t[THEN conjunct2, THEN conjunct2, THEN conjunct2, THEN conjunct2, THEN conjunct2,
            THEN conjunct1, THEN mp, OF conjI[OF p c]]
          t[THEN conjunct2, THEN conjunct2, THEN conjunct2, THEN conjunct2, THEN conjunct2,
            THEN conjunct2, THEN mp, OF n]
    by (rule conjI)
qed

text \<open>
  The two versions are not equivalent. The earlier mapper does not know the
  \<^verbatim>\<open>visible\<close> engine and takes it for the base part, and the earlier generator
  names the step of an \<^verbatim>\<open>assertChecked\<close> action \<^verbatim>\<open>assertChecked\<close>, the later one
  \<^verbatim>\<open>assert.checked\<close>.
\<close>

theorem versions_differ_counterexample:
  \<open>elementFromParsedSelector_v1 recorder (Some ''css=.btn >> visible=true'') =
     Inr (Some \<lparr>res_element = JObj [(''css'', JStr ''.btn >> visible=true'')],
                res_filters = None, res_nth = None\<rparr>)
   \<and> elementFromParsedSelector recorder 0 (Some ''css=.btn >> visible=true'') =
       Inr (Some \<lparr>res_element = JObj [(''css'', JStr ''.btn'')],
                  res_filters = Some [(''visible'', JBool True)], res_nth = None\<rparr>)
   \<and> elementFromParsedSelector_v1 recorder (Some ''css=.btn >> visible=true'') \<noteq>
       elementFromParsedSelector recorder 0 (Some ''css=.btn >> visible=true'')
   \<and> generateActionParts_v1 recorder initialEmitter (assertCheckedOn ''css=.btn'') =
       Inr ([],
            Some [(''action'', JStr ''assertChecked''), (''checked'', JBool True),
                  (''selector'',
                   JObj [(''page'', JStr ''page''), (''element'', JObj [(''css'', JStr ''.btn'')])])],
            initialEmitter)
   \<and> generateActionParts recorder 0 initialEmitter (assertCheckedOn ''css=.btn'') =
       Inr ([],
            Some [(''action'', JStr ''assert.checked''), (''checked'', JBool True),
                  (''selector'',
                   JObj [(''page'', JStr ''page''), (''element'', JObj [(''css'', JStr ''.btn'')])])],
            initialEmitter)\<close>
  by code_simp

end
